theory Spec2Isabelle
  imports Main "HOL-Library.Char_ord" "HOL-Library.List_Lexorder"
begin

section \<open>JavaScript strings\<close>

text \<open>
  The plugin (\<^verbatim>\<open>sync-manager.ts\<close>, \<^verbatim>\<open>notion-api.ts\<close>, \<^verbatim>\<open>types.ts\<close>) works on
  JavaScript strings. A string is modelled as a list of code units, and the model
  covers the code units below 256 (Latin-1). The white space of
  \<^verbatim>\<open>String.prototype.trim\<close> and of the regular expression class \<^verbatim>\<open>\s\<close> is, in
  that range, TAB, LF, VT, FF, CR, SPACE and NBSP; the line terminators that the dot
  of a regular expression does not match are, in that range, LF and CR.
\<close>

definition is_space :: "char \<Rightarrow> bool" where
  "is_space c = (c \<in> {CHR 0x09, CHR 0x0A, CHR 0x0B, CHR 0x0C, CHR 0x0D, CHR 0x20, CHR 0xA0})"

definition js_trim :: "string \<Rightarrow> string" where
  "js_trim s = rev (dropWhile is_space (rev (dropWhile is_space s)))"

text \<open>\<^verbatim>\<open>Array.prototype.join\<close> on a list of strings.\<close>

fun js_join :: "string \<Rightarrow> string list \<Rightarrow> string" where
  "js_join sep [] = []"
| "js_join sep [x] = x"
| "js_join sep (x # y # ys) = x @ sep @ js_join sep (y # ys)"

section \<open>More string functions\<close>

text \<open>\<^verbatim>\<open>toLowerCase\<close> on Latin-1: A-Z and the accented capitals except the
  multiplication sign.\<close>

definition js_lower_char :: "char \<Rightarrow> char" where
  "js_lower_char c =
     (let n = (of_char c :: nat)
      in if (65 \<le> n \<and> n \<le> 90) \<or> (192 \<le> n \<and> n \<le> 222 \<and> n \<noteq> 215)
         then char_of (n + 32) else c)"

definition toLowerCase :: "string \<Rightarrow> string" where
  "toLowerCase s = map js_lower_char s"

definition startsWith :: "string \<Rightarrow> string \<Rightarrow> bool" where
  "startsWith s p = (take (length p) s = p)"

definition endsWith :: "string \<Rightarrow> string \<Rightarrow> bool" where
  "endsWith s p = (length p \<le> length s \<and> drop (length s - length p) s = p)"

fun js_includes :: "string \<Rightarrow> string \<Rightarrow> bool" where
  "js_includes [] p = (p = [])"
| "js_includes (c # cs) p = (startsWith (c # cs) p \<or> js_includes cs p)"

text \<open>\<^verbatim>\<open>s.replace(/\s+/g, r)\<close>: every maximal run of white space becomes \<open>r\<close>.\<close>

function replace_spaces :: "string \<Rightarrow> string \<Rightarrow> string" where
  "replace_spaces r [] = []"
| "replace_spaces r (c # cs) =
     (if is_space c then r @ replace_spaces r (dropWhile is_space cs)
      else c # replace_spaces r cs)"
  by pat_completeness auto
termination
  by (relation "measure (\<lambda>(r, s). length s)")
     (auto simp: length_dropWhile_le le_imp_less_Suc)

text \<open>Decimal text of a number, as the template literals and \<^verbatim>\<open>String\<close> print an
  integer.\<close>

definition digit_char :: "nat \<Rightarrow> char" where
  "digit_char d = char_of (48 + d)"

function show_nat :: "nat \<Rightarrow> string" where
  "show_nat n = (if n < 10 then [digit_char n] else show_nat (n div 10) @ [digit_char (n mod 10)])"
  by pat_completeness auto
termination
  by (relation "measure (\<lambda>n. n)") auto

declare show_nat.simps [simp del]

definition show_int :: "int \<Rightarrow> string" where
  "show_int i = (if i < 0 then CHR ''-'' # show_nat (nat (- i)) else show_nat (nat i))"

section \<open>JavaScript numbers\<close>

text \<open>
  A JavaScript number is modelled by the decimal that \<^verbatim>\<open>Number.prototype.toString\<close>
  prints for it, the shortest decimal that denotes the number: \<open>Dec m e\<close> is
  \<open>m * 10 ^ e\<close>, in canonical form when \<open>m\<close> has no trailing zero (and \<open>e\<close> is 0 for
  zero). The other numbers are the two infinities and \<^verbatim>\<open>NaN\<close>. Negative zero is not
  told apart from zero.
\<close>

datatype jsnum = Dec int int | PosInf | NegInf | NaN


function strip_zeros :: "nat \<Rightarrow> int \<Rightarrow> nat \<times> int" where
  "strip_zeros m e =
     (if m = 0 then (0, 0)
      else if m mod 10 = 0 then strip_zeros (m div 10) (e + 1)
      else (m, e))"
  by pat_completeness auto
termination
  by (relation "measure (\<lambda>(m, e). m)") auto

declare strip_zeros.simps [simp del]

text \<open>The number with the given sign, digits and exponent.\<close>

definition dec :: "bool \<Rightarrow> nat \<Rightarrow> int \<Rightarrow> jsnum" where
  "dec negative m e =
     (case strip_zeros m e of
        (m', e') \<Rightarrow> Dec (if negative then - int m' else int m') e')"

text \<open>
  \<^verbatim>\<open>Number::toString\<close> of the language specification, for a positive number with
  the \<open>k\<close> digits \<open>m\<close> and the exponent \<open>e\<close>: with \<open>n = k + e\<close>, positional notation
  when \<open>-6 < n \<le> 21\<close> and exponential notation otherwise.
\<close>

definition show_positive :: "nat \<Rightarrow> int \<Rightarrow> string" where
  "show_positive m e =
     (let digits = show_nat m;
          k = int (length digits);
          n = k + e
      in if k \<le> n \<and> n \<le> 21 then digits @ replicate (nat (n - k)) CHR ''0''
         else if 0 < n \<and> n \<le> 21 then take (nat n) digits @ ''.'' @ drop (nat n) digits
         else if - 6 < n \<and> n \<le> 0 then ''0.'' @ replicate (nat (- n)) CHR ''0'' @ digits
         else (let exponent = (if n - 1 < 0 then ''-'' else ''+'') @ show_nat (nat \<bar>n - 1\<bar>)
               in if k = 1 then digits @ ''e'' @ exponent
                  else hd digits # ''.'' @ tl digits @ ''e'' @ exponent))"

text \<open>\<^verbatim>\<open>String(n)\<close> and the template literal on a number.\<close>

fun show_num :: "jsnum \<Rightarrow> string" where
  "show_num NaN = ''NaN''"
| "show_num PosInf = ''Infinity''"
| "show_num NegInf = ''-Infinity''"
| "show_num (Dec m e) =
     (if m = 0 then ''0''
      else if m < 0 then CHR ''-'' # show_positive (nat (- m)) e
      else show_positive (nat m) e)"

text \<open>
  \<^verbatim>\<open>Number(text)\<close>: white space is trimmed; the empty string is 0; the literals are
  \<^verbatim>\<open>Infinity\<close>, a decimal literal with an optional fraction and an optional
  exponent, each with an optional sign, and unsigned binary, octal and hexadecimal
  integers; anything else is \<^verbatim>\<open>NaN\<close>. The model gives the exact decimal value of a
  literal: it does not round a literal that has more digits than a double holds, nor
  turn one that is too large into an infinity.
\<close>

definition is_digit :: "char \<Rightarrow> bool" where
  "is_digit c = (CHR ''0'' \<le> c \<and> c \<le> CHR ''9'')"

definition digits_value :: "string \<Rightarrow> nat" where
  "digits_value ds = foldl (\<lambda>acc c. 10 * acc + (of_char c - 48)) 0 ds"

definition unsigned_value :: "string \<Rightarrow> int option" where
  "unsigned_value ds = (if ds \<noteq> [] \<and> (\<forall>c \<in> set ds. is_digit c) then Some (int (digits_value ds)) else None)"

definition radix_digit :: "char \<Rightarrow> nat option" where
  "radix_digit c =
     (let n = (of_char c :: nat)
      in if 48 \<le> n \<and> n \<le> 57 then Some (n - 48)
         else if 97 \<le> n \<and> n \<le> 102 then Some (n - 87)
         else if 65 \<le> n \<and> n \<le> 70 then Some (n - 55)
         else None)"

fun radix_value :: "nat \<Rightarrow> nat \<Rightarrow> string \<Rightarrow> nat option" where
  "radix_value radix acc [] = Some acc"
| "radix_value radix acc (c # cs) =
     (case radix_digit c of
        None \<Rightarrow> None
      | Some d \<Rightarrow> if d < radix then radix_value radix (radix * acc + d) cs else None)"

definition nonDecimal :: "string \<Rightarrow> nat option" where
  "nonDecimal s =
     (case s of
        c # p # ds \<Rightarrow>
          if c = CHR ''0'' \<and> ds \<noteq> [] then
            (if p = CHR ''x'' \<or> p = CHR ''X'' then radix_value 16 0 ds
             else if p = CHR ''o'' \<or> p = CHR ''O'' then radix_value 8 0 ds
             else if p = CHR ''b'' \<or> p = CHR ''B'' then radix_value 2 0 ds
             else None)
          else None
      | _ \<Rightarrow> None)"

text \<open>What follows the digits of a decimal literal: nothing, or an exponent part.\<close>

definition exponentPart :: "string \<Rightarrow> int option" where
  "exponentPart s =
     (case s of
        [] \<Rightarrow> Some 0
      | c # cs \<Rightarrow>
          if c = CHR ''e'' \<or> c = CHR ''E'' then
            (case cs of
               [] \<Rightarrow> None
             | d # ds \<Rightarrow>
                 if d = CHR ''-'' then map_option uminus (unsigned_value ds)
                 else if d = CHR ''+'' then unsigned_value ds
                 else unsigned_value cs)
          else None)"

definition unsignedDecimal :: "bool \<Rightarrow> string \<Rightarrow> jsnum" where
  "unsignedDecimal negative s =
     (if s = ''Infinity'' then (if negative then NegInf else PosInf)
      else
        (let intPart = takeWhile is_digit s;
             rest = dropWhile is_digit s;
             hasPoint = (rest \<noteq> [] \<and> hd rest = CHR ''.'');
             fracPart = (if hasPoint then takeWhile is_digit (tl rest) else []);
             afterDigits = (if hasPoint then dropWhile is_digit (tl rest) else rest)
         in if intPart = [] \<and> fracPart = [] then NaN
            else (case exponentPart afterDigits of
                    None \<Rightarrow> NaN
                  | Some x \<Rightarrow>
                      dec negative (digits_value (intPart @ fracPart))
                        (x - int (length fracPart)))))"

definition js_Number :: "string \<Rightarrow> jsnum" where
  "js_Number s =
     (case js_trim s of
        [] \<Rightarrow> Dec 0 0
      | c # cs \<Rightarrow>
          if c = CHR ''-'' then unsignedDecimal True cs
          else if c = CHR ''+'' then unsignedDecimal False cs
          else (case nonDecimal (c # cs) of
                  Some n \<Rightarrow> dec False n 0
                | None \<Rightarrow> unsignedDecimal False (c # cs)))"

section \<open>Relation display text\<close>

text \<open>A thrown \<^verbatim>\<open>Error\<close> with its message.\<close>

datatype error = Error string

text \<open>
  What \<^verbatim>\<open>NotionAPI.getPageInfo\<close> resolves to: \<^verbatim>\<open>null\<close> or the object
  \<^verbatim>\<open>{ id, title }\<close>. The sync manager calls it through \<^verbatim>\<open>this.notionApi\<close>; in
  the functions of the manager that convert properties the method is the parameter
  \<open>getPageInfo\<close>, and \<open>Inl\<close> is a call that throws.
\<close>

record page_info =
  info_id :: string
  info_title :: string

type_synonym page_lookup = "string \<Rightarrow> error + page_info option"

text \<open>
  One entry of a relation property, \<^verbatim>\<open>{ id: ... }\<close>. An absent or empty \<^verbatim>\<open>id\<close> is
  falsy; both are the empty string here.
\<close>

type_synonym relation = string

text \<open>
  The body of the \<^verbatim>\<open>for\<close> loop of \<^verbatim>\<open>getRelationDisplayText\<close>: what one relation
  appends to \<^verbatim>\<open>relationTexts\<close>. The first case is the \<^verbatim>\<open>catch\<close> block.
\<close>

definition relationStep :: "page_lookup \<Rightarrow> string list \<Rightarrow> relation \<Rightarrow> string list" where
  "relationStep getPageInfo relationTexts rel =
     (if rel \<noteq> [] then
        (case getPageInfo rel of
           Inl e \<Rightarrow> relationTexts @ [''Unknown'']
         | Inr None \<Rightarrow> relationTexts @ [''Untitled'']
         | Inr (Some pageInfo) \<Rightarrow>
             if info_title pageInfo \<noteq> [] then relationTexts @ [info_title pageInfo]
             else relationTexts @ [''Untitled''])
      else relationTexts)"

fun relationLoop :: "page_lookup \<Rightarrow> string list \<Rightarrow> relation list \<Rightarrow> string list" where
  "relationLoop getPageInfo relationTexts [] = relationTexts"
| "relationLoop getPageInfo relationTexts (rel # rels) =
     relationLoop getPageInfo (relationStep getPageInfo relationTexts rel) rels"

definition getRelationDisplayText :: "page_lookup \<Rightarrow> relation list \<Rightarrow> string" where
  "getRelationDisplayText getPageInfo relations =
     (if relations = [] then []
      else js_join '', '' (relationLoop getPageInfo [] relations))"

section \<open>Notion pages, field mappings and front matter\<close>

text \<open>
  A Notion property is the tagged object of the Notion API,
  \<^verbatim>\<open>{ type: 'title', title: [...] }\<close>: one constructor per value of \<^verbatim>\<open>type\<close> that
  the manager's \<^verbatim>\<open>switch\<close> distinguishes, and \<open>Other\<close> for every other tag. A
  \<^verbatim>\<open>null\<close> or missing payload is \<open>None\<close>. Rich-text arrays are the lists of their
  \<^verbatim>\<open>plain_text\<close>; people are the list of their \<^verbatim>\<open>name\<close> (a missing name joins as
  the empty string); files are the list of their names.
\<close>

datatype formula =
    FormulaString "string option"
  | FormulaNumber "jsnum option"
  | FormulaBoolean "bool option"
  | FormulaDate "string option"
  | FormulaOther

datatype rollup =
    RollupArray nat
  | RollupNumber "jsnum option"
  | RollupOther

datatype notion_prop =
    Title "string list"
  | RichText "string list"
  | Number "jsnum option"
  | Date "string option"
  | Select "string option"
  | MultiSelect "string list"
  | Checkbox bool
  | Url "string option"
  | Email "string option"
  | PhoneNumber "string option"
  | Status "string option"
  | Relation "relation list"
  | CreatedTime string
  | LastEditedTime string
  | CreatedBy "string option"
  | LastEditedBy "string option"
  | Formula formula
  | Rollup rollup
  | People "string list"
  | Files "string list"
  | Other string

text \<open>
  A map with string keys is an association list in insertion order; \<open>alist_set\<close>
  overwrites in place or appends.
\<close>

fun alist_set :: "'k \<Rightarrow> 'v \<Rightarrow> ('k \<times> 'v) list \<Rightarrow> ('k \<times> 'v) list" where
  "alist_set k v [] = [(k, v)]"
| "alist_set k v ((k', v') # kvs) =
     (if k' = k then (k, v) # kvs else (k', v') # alist_set k v kvs)"

text \<open>
  A JavaScript object created by \<^verbatim>\<open>{}\<close> is the association list of its own
  properties: \<^verbatim>\<open>Object.entries\<close> is the list itself and \<^verbatim>\<open>o[k] = v\<close> is
  \<open>obj_set\<close>. An assignment to \<^verbatim>\<open>__proto__\<close> goes to the setter that the object
  inherits and makes no property. (Keys that are canonical array indices, which
  JavaScript enumerates first, are outside the model, and so is the change of
  prototype that the assignment of an array to \<^verbatim>\<open>__proto__\<close> causes.)
\<close>

definition obj_set :: "string \<Rightarrow> 'v \<Rightarrow> (string \<times> 'v) list \<Rightarrow> (string \<times> 'v) list" where
  "obj_set k v kvs = (if k = ''__proto__'' then kvs else alist_set k v kvs)"

text \<open>
  \<^verbatim>\<open>NotionPage\<close> of \<^verbatim>\<open>types.ts\<close>. \<^verbatim>\<open>lastModified\<close> is only ever read through
  \<^verbatim>\<open>new Date(page.lastModified)\<close>; the field holds the epoch milliseconds of that
  date, \<open>None\<close> when the date is invalid (\<^verbatim>\<open>getTime()\<close> is \<^verbatim>\<open>NaN\<close> and
  \<^verbatim>\<open>toISOString()\<close> throws).
\<close>

record NotionPage =
  page_id :: string
  properties :: "(string \<times> notion_prop) list"
  page_content :: string
  page_lastModified :: "int option"

text \<open>
  \<^verbatim>\<open>FieldMapping\<close>, \<^verbatim>\<open>SyncMode\<close>, \<^verbatim>\<open>SyncDirection\<close> and \<^verbatim>\<open>SyncConfig\<close> of
  \<^verbatim>\<open>types.ts\<close>. The \<^verbatim>\<open>type\<close> of a mapping is a string at run time, and the
  manager's \<^verbatim>\<open>switch\<close> has a \<^verbatim>\<open>default\<close> branch for the strings outside the
  declared union.
\<close>

record FieldMapping =
  notionProperty :: string
  obsidianProperty :: string
  mapping_type :: string

datatype SyncMode = MANUAL | AUTO | SCHEDULED

datatype SyncDirection = NOTION_TO_OBSIDIAN | OBSIDIAN_TO_NOTION | BIDIRECTIONAL

record SyncConfig =
  config_id :: string
  config_name :: string
  obsidianFolder :: string
  notionDatabaseId :: string
  syncDirection :: SyncDirection
  syncMode :: SyncMode
  fieldMappings :: "FieldMapping list"
  lastSync :: int
  enabled :: bool

text \<open>
  The values of a front-matter object: strings, numbers, booleans and lists of
  strings. A property lookup \<^verbatim>\<open>o[k]\<close> also finds what the object inherits from
  \<^verbatim>\<open>Object.prototype\<close>: \<open>VFunction name\<close> is the built-in function of that name and
  \<open>VObject\<close> the prototype object itself.
\<close>

datatype jsval =
    VStr string
  | VNum jsnum
  | VBool bool
  | VList "string list"
  | VFunction string
  | VObject

type_synonym frontmatter = "(string \<times> jsval) list"

definition objectPrototype :: "string \<Rightarrow> jsval option" where
  "objectPrototype k =
     (if k = ''constructor'' then Some (VFunction ''Object'')
      else if k \<in> {''__defineGetter__'', ''__defineSetter__'', ''hasOwnProperty'',
                    ''__lookupGetter__'', ''__lookupSetter__'', ''isPrototypeOf'',
                    ''propertyIsEnumerable'', ''toString'', ''valueOf'', ''toLocaleString''}
        then Some (VFunction k)
      else if k = ''__proto__'' then Some VObject
      else None)"

text \<open>\<^verbatim>\<open>o[k]\<close> on a front-matter object; \<open>None\<close> is \<^verbatim>\<open>undefined\<close>.\<close>

definition obj_get :: "frontmatter \<Rightarrow> string \<Rightarrow> jsval option" where
  "obj_get fm k = (case map_of fm k of Some v \<Rightarrow> Some v | None \<Rightarrow> objectPrototype k)"

section \<open>File names\<close>

text \<open>The character class of \<^verbatim>\<open>sanitizeFileName\<close>: less-than, greater-than, colon,
  double quote, slash, backslash, bar, question mark, asterisk.\<close>

definition invalid_char :: "char \<Rightarrow> bool" where
  "invalid_char c = (c \<in> {CHR ''<'', CHR ''>'', CHR '':'', CHR 0x22, CHR ''/'', CHR 0x5C,
                            CHR ''|'', CHR ''?'', CHR ''*''})"

definition sanitizeFileName :: "string \<Rightarrow> string" where
  "sanitizeFileName name =
     take 100 (js_trim (replace_spaces '' ''
       (filter (\<lambda>c. \<not> invalid_char c) name)))"

text \<open>
  The three places where \<^verbatim>\<open>getFileNameFromPage\<close> reads a title test the same thing:
  the \<^verbatim>\<open>title\<close> array is not empty and the \<^verbatim>\<open>plain_text\<close> of its first element
  is not blank. Only a title-typed property carries a \<^verbatim>\<open>title\<close> array.
\<close>

fun firstTitle :: "notion_prop \<Rightarrow> string option" where
  "firstTitle (Title (t # ts)) = (if js_trim t \<noteq> [] then Some t else None)"
| "firstTitle _ = None"

text \<open>The test of \<^verbatim>\<open>config.fieldMappings.find(...)\<close> in \<^verbatim>\<open>getFileNameFromPage\<close>.\<close>

definition isTitleMapping :: "FieldMapping \<Rightarrow> bool" where
  "isTitleMapping m =
     (js_includes (toLowerCase (notionProperty m)) ''title''
      \<or> toLowerCase (notionProperty m) = ''name'')"

text \<open>The loop over \<^verbatim>\<open>Object.entries(page.properties)\<close>: the first title found.\<close>

fun anyTitle :: "(string \<times> notion_prop) list \<Rightarrow> string option" where
  "anyTitle [] = None"
| "anyTitle ((key, prop) # rest) =
     (case firstTitle prop of Some title \<Rightarrow> Some title | None \<Rightarrow> anyTitle rest)"

definition getFileNameFromPage :: "NotionPage \<Rightarrow> SyncConfig \<Rightarrow> string" where
  "getFileNameFromPage page config =
     (case (case List.find isTitleMapping (fieldMappings config) of
              None \<Rightarrow> None
            | Some titleMapping \<Rightarrow>
                (case map_of (properties page) (notionProperty titleMapping) of
                   None \<Rightarrow> None
                 | Some titleProp \<Rightarrow> firstTitle titleProp)) of
        Some title \<Rightarrow> sanitizeFileName title
      | None \<Rightarrow>
         (case anyTitle (properties page) of
            Some title \<Rightarrow> sanitizeFileName title
          | None \<Rightarrow>
             (case (case map_of (properties page) ''Name'' of
                      None \<Rightarrow> None
                    | Some nameProp \<Rightarrow> firstTitle nameProp) of
                Some title \<Rightarrow> sanitizeFileName title
              | None \<Rightarrow> ''Notion-Page-'' @ take 8 (page_id page))))"

section \<open>Property codec: Notion properties to front matter\<close>

text \<open>
  The \<^verbatim>\<open>switch\<close> over \<^verbatim>\<open>notionProp.type\<close> is written twice in
  \<^verbatim>\<open>convertNotionPropertiesToFrontmatter\<close>, with the same cases; the two copies
  differ in the \<^verbatim>\<open>default\<close> branch only. \<open>Value v\<close> is the \<^verbatim>\<open>value\<close> the switch
  assigns (\<open>None\<close> for \<^verbatim>\<open>null\<close> and \<^verbatim>\<open>undefined\<close>), \<open>Unsupported ty\<close> the
  \<^verbatim>\<open>default\<close> branch. On this data no case throws, so the \<^verbatim>\<open>catch\<close> blocks of
  the function are not reached.
\<close>

datatype switch_result = Value "jsval option" | Unsupported string

definition or_default :: "string option \<Rightarrow> string \<Rightarrow> string" where
  "or_default s d = (case s of None \<Rightarrow> d | Some x \<Rightarrow> if x \<noteq> [] then x else d)"

fun propertySwitch :: "page_lookup \<Rightarrow> notion_prop \<Rightarrow> switch_result" where
  "propertySwitch g (Title ts) = Value (Some (VStr (concat ts)))"
| "propertySwitch g (RichText ts) = Value (Some (VStr (concat ts)))"
| "propertySwitch g (Number n) = Value (map_option VNum n)"
| "propertySwitch g (Date d) = Value (map_option VStr d)"
| "propertySwitch g (Select s) = Value (map_option VStr s)"
| "propertySwitch g (MultiSelect xs) = Value (Some (VList xs))"
| "propertySwitch g (Checkbox b) = Value (Some (VBool b))"
| "propertySwitch g (Url u) = Value (map_option VStr u)"
| "propertySwitch g (Email e) = Value (map_option VStr e)"
| "propertySwitch g (PhoneNumber p) = Value (map_option VStr p)"
| "propertySwitch g (Status s) = Value (Some (VStr (or_default s ''Not started'')))"
| "propertySwitch g (Relation relations) = Value (Some (VStr (getRelationDisplayText g relations)))"
| "propertySwitch g (CreatedTime t) = Value (Some (VStr t))"
| "propertySwitch g (LastEditedTime t) = Value (Some (VStr t))"
| "propertySwitch g (CreatedBy n) = Value (Some (VStr (or_default n ''Unknown user'')))"
| "propertySwitch g (LastEditedBy n) = Value (Some (VStr (or_default n ''Unknown user'')))"
| "propertySwitch g (Formula (FormulaString s)) = Value (map_option VStr s)"
| "propertySwitch g (Formula (FormulaNumber n)) = Value (map_option VNum n)"
| "propertySwitch g (Formula (FormulaBoolean b)) = Value (map_option VBool b)"
| "propertySwitch g (Formula (FormulaDate d)) = Value (map_option VStr d)"
| "propertySwitch g (Formula FormulaOther) = Value (Some (VStr ''Formula result''))"
| "propertySwitch g (Rollup (RollupArray n)) = Value (Some (VStr (show_nat n @ '' items'')))"
| "propertySwitch g (Rollup (RollupNumber n)) = Value (map_option VNum n)"
| "propertySwitch g (Rollup RollupOther) = Value (Some (VStr ''Rollup result''))"
| "propertySwitch g (People people) =
     Value (Some (VStr (or_default (Some (js_join '', '' people)) ''No people'')))"
| "propertySwitch g (Files files) =
     Value (Some (VStr (if length files > 0 then show_nat (length files) @ '' files''
                        else ''No files'')))"
| "propertySwitch g (Other ty) = Unsupported ty"

text \<open>\<^verbatim>\<open>propName.toLowerCase().replace(/\s+/g, '_')\<close>\<close>

definition frontmatterKey :: "string \<Rightarrow> string" where
  "frontmatterKey propName = replace_spaces ''_'' (toLowerCase propName)"

text \<open>The loop of the branch without field mappings.\<close>

definition autoConvertStep :: "page_lookup \<Rightarrow> frontmatter \<Rightarrow> string \<times> notion_prop \<Rightarrow> frontmatter" where
  "autoConvertStep g fm entry =
     (let value = (case propertySwitch g (snd entry) of
                     Value v \<Rightarrow> v
                   | Unsupported ty \<Rightarrow> Some (VStr (''['' @ ty @ '']'')))
      in case value of
           Some v \<Rightarrow> obj_set (frontmatterKey (fst entry)) v fm
         | None \<Rightarrow> obj_set (frontmatterKey (fst entry)) (VStr []) fm)"

fun autoConvertLoop :: "page_lookup \<Rightarrow> frontmatter \<Rightarrow> (string \<times> notion_prop) list \<Rightarrow> frontmatter" where
  "autoConvertLoop g fm [] = fm"
| "autoConvertLoop g fm (entry # entries) = autoConvertLoop g (autoConvertStep g fm entry) entries"

text \<open>
  The loop over the configured field mappings. \<^verbatim>\<open>properties[name]\<close> is a
  property of the page or, for a name that \<^verbatim>\<open>Object.prototype\<close> defines, a value
  without \<^verbatim>\<open>type\<close>, which the \<^verbatim>\<open>default\<close> branch skips as it skips a missing
  property.
\<close>

definition mappedConvertStep ::
    "page_lookup \<Rightarrow> (string \<times> notion_prop) list \<Rightarrow> frontmatter \<Rightarrow> FieldMapping \<Rightarrow> frontmatter" where
  "mappedConvertStep g props fm mapping =
     (case map_of props (notionProperty mapping) of
        None \<Rightarrow> fm
      | Some notionProp \<Rightarrow>
          (case propertySwitch g notionProp of
             Unsupported ty \<Rightarrow> fm
           | Value None \<Rightarrow> fm
           | Value (Some v) \<Rightarrow> obj_set (obsidianProperty mapping) v fm))"

fun mappedConvertLoop ::
    "page_lookup \<Rightarrow> (string \<times> notion_prop) list \<Rightarrow> frontmatter \<Rightarrow> FieldMapping list \<Rightarrow> frontmatter" where
  "mappedConvertLoop g props fm [] = fm"
| "mappedConvertLoop g props fm (m # ms) =
     mappedConvertLoop g props (mappedConvertStep g props fm m) ms"

definition convertNotionPropertiesToFrontmatter ::
    "page_lookup \<Rightarrow> (string \<times> notion_prop) list \<Rightarrow> SyncConfig \<Rightarrow> frontmatter" where
  "convertNotionPropertiesToFrontmatter g props config =
     (if fieldMappings config = [] then autoConvertLoop g [] props
      else mappedConvertLoop g props [] (fieldMappings config))"

section \<open>Document codec\<close>

abbreviation NL :: char where "NL \<equiv> CHR 0x0A"
abbreviation CR :: char where "CR \<equiv> CHR 0x0D"
abbreviation DQ :: char where "DQ \<equiv> CHR 0x22"

definition quoted :: "string \<Rightarrow> string" where
  "quoted s = DQ # s @ [DQ]"

text \<open>\<^verbatim>\<open>String(value)\<close> and the template literal on a value; an array prints its
  elements joined by commas, a built-in function its source text.\<close>

fun js_String :: "jsval \<Rightarrow> string" where
  "js_String (VStr s) = s"
| "js_String (VNum n) = show_num n"
| "js_String (VBool b) = (if b then ''true'' else ''false'')"
| "js_String (VList vs) = js_join '','' vs"
| "js_String (VFunction name) = ''function '' @ name @ ''() { [native code] }''"
| "js_String VObject = ''[object Object]''"

text \<open>
  The text of a value in \<^verbatim>\<open>createMarkdownContent\<close>: an array in brackets with its
  elements quoted, a string quoted, anything else as the template literal prints it.
\<close>

fun formatValue :: "jsval \<Rightarrow> string" where
  "formatValue (VList vs) = ''['' @ js_join '', '' (map quoted vs) @ '']''"
| "formatValue (VStr s) = quoted s"
| "formatValue v = js_String v"

text \<open>One \<^verbatim>\<open>key: value\<close> line, without and with its line feed.\<close>

definition lineText :: "string \<times> jsval \<Rightarrow> string" where
  "lineText entry = fst entry @ '': '' @ formatValue (snd entry)"

definition frontmatterLine :: "string \<times> jsval \<Rightarrow> string" where
  "frontmatterLine entry = lineText entry @ [NL]"

definition createMarkdownContent :: "frontmatter \<Rightarrow> string \<Rightarrow> string" where
  "createMarkdownContent fm content =
     (if length fm > 0
      then ''---'' @ [NL] @ concat (map frontmatterLine fm) @ ''---'' @ [NL, NL]
      else []) @ content"

text \<open>
  The first occurrence of a pattern in a string: the text before it and the text
  after it. The regular expression \<^verbatim>\<open>/^---\n([\s\S]*?)\n---\n/\<close> has a lazy group
  between two literals, so it matches when the content starts with the first literal
  and the second occurs afterwards; the group is what precedes its first occurrence.
\<close>

fun split_first :: "string \<Rightarrow> string \<Rightarrow> (string \<times> string) option" where
  "split_first pat [] = (if pat = [] then Some ([], []) else None)"
| "split_first pat (c # cs) =
     (if startsWith (c # cs) pat then Some ([], drop (length pat) (c # cs))
      else map_option (\<lambda>(before, after). (c # before, after)) (split_first pat cs))"

definition frontmatterRegex :: "string \<Rightarrow> (string \<times> string) option" where
  "frontmatterRegex content =
     (if startsWith content (''---'' @ [NL])
      then split_first ([NL] @ ''---'' @ [NL]) (drop 4 content)
      else None)"

text \<open>\<^verbatim>\<open>s.split(c)\<close> for a one-character separator.\<close>

fun js_split :: "char \<Rightarrow> string \<Rightarrow> string list" where
  "js_split sep [] = [[]]"
| "js_split sep (c # cs) =
     (if c = sep then [] # js_split sep cs
      else (case js_split sep cs of
              [] \<Rightarrow> [[c]]
            | y # ys \<Rightarrow> (c # y) # ys))"

fun indexOf :: "string \<Rightarrow> char \<Rightarrow> int" where
  "indexOf [] x = - 1"
| "indexOf (c # cs) x =
     (if c = x then 0 else (let i = indexOf cs x in if i < 0 then - 1 else i + 1))"

text \<open>\<^verbatim>\<open>s.slice(1, -1)\<close>\<close>

definition slice_1_m1 :: "string \<Rightarrow> string" where
  "slice_1_m1 s = butlast (tl s)"

text \<open>\<^verbatim>\<open>v.replace(/^"(.*)"$/, '$1')\<close>: the dot does not match a line terminator.\<close>

definition unquote :: "string \<Rightarrow> string" where
  "unquote v =
     (if length v \<ge> 2 \<and> hd v = DQ \<and> last v = DQ
         \<and> (\<forall>c \<in> set (slice_1_m1 v). c \<noteq> NL \<and> c \<noteq> CR)
      then slice_1_m1 v else v)"

text \<open>The chain of tests on one trimmed value in \<^verbatim>\<open>parseMarkdownFile\<close>.\<close>

definition parseValue :: "string \<Rightarrow> jsval" where
  "parseValue v =
     (if startsWith v [DQ] \<and> endsWith v [DQ] then VStr (slice_1_m1 v)
      else if startsWith v ''['' \<and> endsWith v '']''
        then VList (map (\<lambda>x. unquote (js_trim x)) (js_split CHR '','' (slice_1_m1 v)))
      else if v = ''true'' then VBool True
      else if v = ''false'' then VBool False
      else if js_Number v \<noteq> NaN then VNum (js_Number v)
      else VStr v)"

definition parseLine :: "frontmatter \<Rightarrow> string \<Rightarrow> frontmatter" where
  "parseLine fm line =
     (let colonIndex = indexOf line CHR '':''
      in if colonIndex > 0
         then obj_set (js_trim (take (nat colonIndex) line))
                      (parseValue (js_trim (drop (nat colonIndex + 1) line))) fm
         else fm)"

fun parseLines :: "frontmatter \<Rightarrow> string list \<Rightarrow> frontmatter" where
  "parseLines fm [] = fm"
| "parseLines fm (line # yamlLines) = parseLines (parseLine fm line) yamlLines"

text \<open>A file handle: its path and \<^verbatim>\<open>stat.mtime\<close>.\<close>

record TFile =
  file_path :: string
  mtime :: int

text \<open>\<^verbatim>\<open>ObsidianNote\<close> of \<^verbatim>\<open>types.ts\<close>; \<^verbatim>\<open>notionId\<close> holds whatever value the
  front matter has under that key.\<close>

record ObsidianNote =
  note_path :: string
  note_frontmatter :: frontmatter
  note_content :: string
  note_lastModified :: int
  notionId :: "jsval option"

definition parseMarkdownFile :: "TFile \<Rightarrow> string \<Rightarrow> ObsidianNote" where
  "parseMarkdownFile file content =
     (let (fm, noteContent) =
            (case frontmatterRegex content of
               Some (yaml, rest) \<Rightarrow> (parseLines [] (js_split NL yaml), rest)
             | None \<Rightarrow> ([], content))
      in \<lparr> note_path = file_path file, note_frontmatter = fm, note_content = noteContent,
           note_lastModified = mtime file, notionId = map_of fm ''notionId'' \<rparr>)"

section \<open>Change detection\<close>

text \<open>Truthiness, as \<^verbatim>\<open>if (note.notionId)\<close> and \<^verbatim>\<open>Boolean(value)\<close> test it.\<close>

fun truthy :: "jsval \<Rightarrow> bool" where
  "truthy (VStr s) = (s \<noteq> [])"
| "truthy (VNum n) = (case n of Dec m e \<Rightarrow> m \<noteq> 0 | NaN \<Rightarrow> False | _ \<Rightarrow> True)"
| "truthy (VBool b) = b"
| "truthy v = True"

text \<open>
  \<^verbatim>\<open>normalizeValue\<close>. \<^verbatim>\<open>value.sort()\<close> orders the strings by code units and sorts
  the array in place: \<open>sortedValue\<close> is the value the object holds afterwards.
\<close>

fun sortedValue :: "jsval \<Rightarrow> jsval" where
  "sortedValue (VList vs) = VList (sort vs)"
| "sortedValue v = v"

definition normalizeValue :: "jsval option \<Rightarrow> string" where
  "normalizeValue value =
     (case value of
        None \<Rightarrow> []
      | Some (VList vs) \<Rightarrow> js_join '','' (sort vs)
      | Some v \<Rightarrow> js_trim (js_String v))"

text \<open>\<^verbatim>\<open>o[k]\<close> after \<^verbatim>\<open>normalizeValue(o[k])\<close> has run.\<close>

definition sortField :: "string \<Rightarrow> frontmatter \<Rightarrow> frontmatter" where
  "sortField k fm = (case map_of fm k of None \<Rightarrow> fm | Some v \<Rightarrow> alist_set k (sortedValue v) fm)"

text \<open>
  \<^verbatim>\<open>hasSignificantChanges\<close>: the result, and the front matter of the note as the
  loop leaves it (the caller goes on using the same object).
\<close>

fun hasSignificantChanges ::
    "frontmatter \<Rightarrow> frontmatter \<Rightarrow> FieldMapping list \<Rightarrow> bool \<times> frontmatter" where
  "hasSignificantChanges notion obsidian [] = (False, obsidian)"
| "hasSignificantChanges notion obsidian (mapping # mappings) =
     (if normalizeValue (obj_get notion (obsidianProperty mapping))
           \<noteq> normalizeValue (obj_get obsidian (obsidianProperty mapping))
      then (True, sortField (obsidianProperty mapping) obsidian)
      else hasSignificantChanges (sortField (obsidianProperty mapping) notion)
             (sortField (obsidianProperty mapping) obsidian) mappings)"

fun replace_crlf :: "string \<Rightarrow> string" where
  "replace_crlf (c # d # cs) =
     (if c = CR \<and> d = NL then NL # replace_crlf cs else c # replace_crlf (d # cs))"
| "replace_crlf cs = cs"

definition normalizeContent :: "string \<Rightarrow> string" where
  "normalizeContent content = js_trim (replace_crlf content)"

section \<open>Property codec: front matter to Notion properties\<close>

text \<open>The property objects that \<^verbatim>\<open>convertFrontmatterToNotionProperties\<close> builds.\<close>

datatype notion_payload =
    PRichText string
  | PMultiSelect "string list"
  | PNumber jsnum
  | PDate string
  | PCheckbox bool

text \<open>\<^verbatim>\<open>Number(value)\<close> on a front-matter value.\<close>

fun js_Number_val :: "jsval \<Rightarrow> jsnum" where
  "js_Number_val (VNum n) = n"
| "js_Number_val (VBool b) = Dec (if b then 1 else 0) 0"
| "js_Number_val v = js_Number (js_String v)"

definition toNotionStep ::
    "frontmatter \<Rightarrow> (string \<times> notion_payload) list \<Rightarrow> FieldMapping \<Rightarrow> (string \<times> notion_payload) list" where
  "toNotionStep fm props mapping =
     (case obj_get fm (obsidianProperty mapping) of
        None \<Rightarrow> props
      | Some value \<Rightarrow>
          if mapping_type mapping = ''text''
            then obj_set (notionProperty mapping) (PRichText (js_String value)) props
          else if mapping_type mapping = ''list''
            then obj_set (notionProperty mapping)
                   (PMultiSelect (case value of VList vs \<Rightarrow> vs | v \<Rightarrow> [js_String v])) props
          else if mapping_type mapping = ''number''
            then (let numValue = js_Number_val value
                  in if numValue \<noteq> NaN
                     then obj_set (notionProperty mapping) (PNumber numValue) props
                     else props)
          else if mapping_type mapping = ''date'' \<or> mapping_type mapping = ''date & time''
            then obj_set (notionProperty mapping) (PDate (js_String value)) props
          else if mapping_type mapping = ''checkbox''
            then obj_set (notionProperty mapping) (PCheckbox (truthy value)) props
          else props)"

fun toNotionLoop ::
    "frontmatter \<Rightarrow> (string \<times> notion_payload) list \<Rightarrow> FieldMapping list \<Rightarrow> (string \<times> notion_payload) list" where
  "toNotionLoop fm props [] = props"
| "toNotionLoop fm props (m # ms) = toNotionLoop fm (toNotionStep fm props m) ms"

definition convertFrontmatterToNotionProperties ::
    "frontmatter \<Rightarrow> SyncConfig \<Rightarrow> (string \<times> notion_payload) list" where
  "convertFrontmatterToNotionProperties fm config =
     (if fieldMappings config = [] then [] else toNotionLoop fm [] (fieldMappings config))"

section \<open>The vault, the Notion service and the run of a sync\<close>

text \<open>
  The plugin talks to the Obsidian vault and, through \<^verbatim>\<open>requestUrl\<close>, to the Notion
  service. Their state is the \<open>world\<close>.
  \<^item> \<open>vault\<close>: the abstract files by path, a file with its content and
    modification time, or a folder.
  \<^item> \<open>service\<close>: the pages that the Notion service holds, each with the database
    it belongs to, its properties, its child blocks and the time of its last edit.
  \<^item> \<open>next_id\<close>: the number from which the service makes the identifiers of the
    pages and blocks created next.
  \<^item> \<open>faults\<close>: every call of the vault and every request to the service takes the
    next entry; \<open>True\<close> makes the call fail. An empty list means no more failures.
  \<^item> \<open>lookup_fails\<close>: the identifiers for which the request of \<^verbatim>\<open>getPageInfo\<close>
    fails.
  \<^item> \<open>now\<close>: the clock (\<^verbatim>\<open>Date.now()\<close>, \<^verbatim>\<open>new Date()\<close>);
    \<open>isoString\<close>: \<^verbatim>\<open>Date.prototype.toISOString\<close> on a valid date.
  \<^item> \<open>notices\<close>: the \<^verbatim>\<open>Notice\<close>s that the sync manager shows, with the numbers
    they print; \<open>api_notices\<close>: the \<^verbatim>\<open>Notice\<close>s that \<^verbatim>\<open>NotionAPI.request\<close>
    shows when a request of \<^verbatim>\<open>getDatabasePages\<close>, \<^verbatim>\<open>getPageContent\<close>,
    \<^verbatim>\<open>createPage\<close> or \<^verbatim>\<open>updatePage\<close> fails.
  \<^item> \<open>oplog\<close>: every call of the vault and every request of these four methods,
    in order.
  The requests of \<^verbatim>\<open>getPageInfo\<close>, which only read and whose failure the method
  catches, are answered from \<open>service\<close> and \<open>lookup_fails\<close> and leave no trace
  in the world.
\<close>

datatype entry = File string int | Folder

text \<open>
  A block of a page: its identifier, its \<^verbatim>\<open>type\<close> and the \<^verbatim>\<open>plain_text\<close> of each
  element of the \<^verbatim>\<open>rich_text\<close> array found under the name of the type (no array is
  the empty list). A block of a request body is its type and the content of its one
  text.
\<close>

datatype block_type =
    Paragraph | Heading1 | Heading2 | Heading3 | BulletedListItem | NumberedListItem
  | OtherBlock string

record block =
  block_id :: string
  block_type :: block_type
  rich_text :: "string list"

type_synonym new_block = "block_type \<times> string"

record service_page =
  parent_database :: string
  object_id :: string
  object_properties :: "(string \<times> notion_prop) list"
  children :: "block list"
  last_edited_time :: "int option"

datatype notice =
    Syncing string
  | Synced string
  | NoPagesFound string
  | PageFailed string
  | PullSummary nat nat nat
  | ManualConflict string
  | ConflictsDetected nat

text \<open>
  The requests of \<^verbatim>\<open>getDatabasePages\<close>, \<^verbatim>\<open>getPageContent\<close>, \<^verbatim>\<open>createPage\<close> and
  \<^verbatim>\<open>updatePage\<close>: method and endpoint, with what the body carries. The cursor of a
  query is the position at which the service goes on.
\<close>

datatype http_request =
    QueryDatabase string "nat option"
  | GetBlockChildren string
  | PostPage string "(string \<times> notion_payload) list" "new_block list"
  | PatchPage string "(string \<times> notion_payload) list"
  | DeleteBlock string
  | PatchBlockChildren string "new_block list"

datatype op =
    Request http_request
  | VaultRead string
  | VaultModify string
  | VaultCreate string
  | VaultCreateFolder string

record world =
  vault :: "(string \<times> entry) list"
  service :: "service_page list"
  next_id :: nat
  faults :: "bool list"
  lookup_fails :: "string \<Rightarrow> bool"
  now :: int
  isoString :: "int \<Rightarrow> string"
  notices :: "notice list"
  api_notices :: "string list"
  oplog :: "op list"

text \<open>
  An \<^verbatim>\<open>async\<close> function: from the world to its outcome, a thrown error or a value,
  and the world it leaves.
\<close>

type_synonym 'a io = "world \<Rightarrow> (error + 'a) \<times> world"

definition io_return :: "'a \<Rightarrow> 'a io" where
  "io_return x w = (Inr x, w)"

definition io_throw :: "error \<Rightarrow> 'a io" where
  "io_throw e w = (Inl e, w)"

definition io_bind :: "'a io \<Rightarrow> ('a \<Rightarrow> 'b io) \<Rightarrow> 'b io" where
  "io_bind m f w = (case m w of (Inl e, w') \<Rightarrow> (Inl e, w') | (Inr x, w') \<Rightarrow> f x w')"

definition io_notice :: "notice \<Rightarrow> unit io" where
  "io_notice n w = (Inr (), w\<lparr>notices := notices w @ [n]\<rparr>)"

text \<open>A call of the vault: it is logged, and it fails when the next fault says so.\<close>

definition external :: "op \<Rightarrow> unit io" where
  "external operation w =
     (let w1 = w\<lparr>oplog := oplog w @ [operation]\<rparr>
      in case faults w1 of
           [] \<Rightarrow> (Inr (), w1)
         | f # fs \<Rightarrow> (if f then Inl (Error ''request failed'') else Inr (), w1\<lparr>faults := fs\<rparr>))"

subsection \<open>The vault\<close>

definition getAbstractFileByPath :: "world \<Rightarrow> string \<Rightarrow> entry option" where
  "getAbstractFileByPath w path = map_of (vault w) path"

text \<open>\<^verbatim>\<open>vault.read(file)\<close>\<close>

definition vault_read :: "string \<Rightarrow> string io" where
  "vault_read path =
     io_bind (external (VaultRead path)) (\<lambda>_ w.
       case getAbstractFileByPath w path of
         Some (File content t) \<Rightarrow> (Inr content, w)
       | _ \<Rightarrow> (Inl (Error ''not a file''), w))"

text \<open>\<^verbatim>\<open>vault.modify(file, content)\<close>: the handle must be a file of the vault.\<close>

definition vault_modify :: "string \<Rightarrow> string \<Rightarrow> unit io" where
  "vault_modify path content =
     io_bind (external (VaultModify path)) (\<lambda>_ w.
       case getAbstractFileByPath w path of
         Some (File old t) \<Rightarrow> (Inr (), w\<lparr>vault := alist_set path (File content (now w)) (vault w)\<rparr>)
       | _ \<Rightarrow> (Inl (Error ''not a file''), w))"

text \<open>\<^verbatim>\<open>vault.create(path, content)\<close> throws when the path is taken.\<close>

definition vault_create :: "string \<Rightarrow> string \<Rightarrow> unit io" where
  "vault_create path content =
     io_bind (external (VaultCreate path)) (\<lambda>_ w.
       case getAbstractFileByPath w path of
         None \<Rightarrow> (Inr (), w\<lparr>vault := alist_set path (File content (now w)) (vault w)\<rparr>)
       | Some e \<Rightarrow> (Inl (Error ''File already exists.''), w))"

definition vault_createFolder :: "string \<Rightarrow> unit io" where
  "vault_createFolder path =
     io_bind (external (VaultCreateFolder path)) (\<lambda>_ w.
       case getAbstractFileByPath w path of
         None \<Rightarrow> (Inr (), w\<lparr>vault := alist_set path Folder (vault w)\<rparr>)
       | Some e \<Rightarrow> (Inl (Error ''Folder already exists.''), w))"

definition ensureFolderExists :: "string \<Rightarrow> unit io" where
  "ensureFolderExists folderPath w =
     (case getAbstractFileByPath w folderPath of
        None \<Rightarrow> vault_createFolder folderPath w
      | Some folder \<Rightarrow> (Inr (), w))"

text \<open>
  \<^verbatim>\<open>getAllMarkdownFiles\<close> walks the children of a folder and collects the files
  with extension \<^verbatim>\<open>md\<close>. In a vault keyed by path these are the files whose path
  lies below the folder and ends in \<^verbatim>\<open>.md\<close>. When the handle is a file, not a
  folder, it has no children to iterate, and the walk throws.
\<close>

definition markdownFilesBelow :: "world \<Rightarrow> string \<Rightarrow> TFile list" where
  "markdownFilesBelow w folderPath =
     concat (map (\<lambda>(path, e).
                    case e of
                      File content t \<Rightarrow>
                        if startsWith path (folderPath @ ''/'') \<and> endsWith path ''.md''
                        then [\<lparr>file_path = path, mtime = t\<rparr>] else []
                    | Folder \<Rightarrow> [])
                 (vault w))"

definition getAllMarkdownFiles :: "string \<Rightarrow> entry \<Rightarrow> (TFile list) io" where
  "getAllMarkdownFiles folderPath folder w =
     (case folder of
        Folder \<Rightarrow> (Inr (markdownFilesBelow w folderPath), w)
      | File content t \<Rightarrow> (Inl (Error ''children is not iterable''), w))"

subsection \<open>The Notion service\<close>

text \<open>
  The answer of the service to a request: the fields of the response body that the
  client reads. \<^verbatim>\<open>results\<close> holds pages in the answer to a query and blocks in the
  answer to a listing of children; a field that is missing is empty, false or none.
\<close>

record response =
  result_pages :: "service_page list"
  result_blocks :: "block list"
  has_more :: bool
  next_cursor :: "nat option"
  response_id :: string

definition no_response :: response where
  "no_response =
     \<lparr>result_pages = [], result_blocks = [], has_more = False, next_cursor = None,
      response_id = []\<rparr>"

text \<open>
  What the service does with a property object of a request body: the page gets the
  property of that type.
\<close>

fun payloadProp :: "notion_payload \<Rightarrow> notion_prop" where
  "payloadProp (PRichText s) = RichText [s]"
| "payloadProp (PMultiSelect vs) = MultiSelect vs"
| "payloadProp (PNumber n) = Number (Some n)"
| "payloadProp (PDate d) = Date (Some d)"
| "payloadProp (PCheckbox b) = Checkbox b"

fun applyPayload ::
    "(string \<times> notion_payload) list \<Rightarrow> (string \<times> notion_prop) list \<Rightarrow> (string \<times> notion_prop) list" where
  "applyPayload [] props = props"
| "applyPayload ((name, p) # rest) props = applyPayload rest (alist_set name (payloadProp p) props)"

definition fresh_id :: "nat \<Rightarrow> string" where
  "fresh_id n = ''id-'' @ show_nat n"

definition newBlocks :: "nat \<Rightarrow> new_block list \<Rightarrow> block list" where
  "newBlocks n blocks =
     map (\<lambda>(i, (ty, content)). \<lparr>block_id = fresh_id i, block_type = ty, rich_text = [content]\<rparr>)
         (enumerate n blocks)"

text \<open>
  The service, as far as the client uses it. A query returns the pages of the database
  a hundred at a time, with a cursor while there are more. The children of a page are
  listed, deleted one by one (\<^verbatim>\<open>DELETE /blocks/{id}\<close> removes the block with that
  identifier from the page that holds it) and appended. A new page gets a fresh
  identifier, which the response carries. A request about a page or a block that the
  service does not hold is answered with an error status. The blocks of the model are
  the content of their page; a block that is itself a page or a database
  (\<^verbatim>\<open>child_page\<close>, \<^verbatim>\<open>child_database\<close>) is one of the other blocks here, without
  pages of its own.
\<close>

fun serve :: "http_request \<Rightarrow> world \<Rightarrow> (error + response) \<times> world" where
  "serve (QueryDatabase databaseId cursor) w =
     (let records = filter (\<lambda>p. parent_database p = databaseId) (service w);
          start = (case cursor of None \<Rightarrow> 0 | Some c \<Rightarrow> c);
          more = (start + 100 < length records)
      in (Inr (no_response\<lparr>result_pages := take 100 (drop start records),
                            has_more := more,
                            next_cursor := (if more then Some (start + 100) else None)\<rparr>), w))"
| "serve (GetBlockChildren pageId) w =
     (case List.find (\<lambda>p. object_id p = pageId) (service w) of
        None \<Rightarrow> (Inl (Error ''Could not find block''), w)
      | Some p \<Rightarrow> (Inr (no_response\<lparr>result_blocks := children p\<rparr>), w))"
| "serve (PostPage databaseId props blocks) w =
     (let pageId = fresh_id (next_id w)
      in (Inr (no_response\<lparr>response_id := pageId\<rparr>),
          w\<lparr>service := service w @
                [\<lparr>parent_database = databaseId, object_id = pageId,
                  object_properties = applyPayload props [],
                  children = newBlocks (next_id w + 1) blocks,
                  last_edited_time = Some (now w)\<rparr>],
            next_id := next_id w + 1 + length blocks\<rparr>))"
| "serve (PatchPage pageId props) w =
     (if pageId \<in> set (map object_id (service w))
      then (Inr (no_response\<lparr>response_id := pageId\<rparr>),
            w\<lparr>service :=
                map (\<lambda>p. if object_id p = pageId
                          then p\<lparr>object_properties := applyPayload props (object_properties p),
                                 last_edited_time := Some (now w)\<rparr>
                          else p)
                    (service w)\<rparr>)
      else (Inl (Error ''Could not find page''), w))"
| "serve (DeleteBlock blockId) w =
     (if blockId \<in> set (map block_id (concat (map children (service w))))
      then (Inr (no_response\<lparr>response_id := blockId\<rparr>),
            w\<lparr>service :=
                map (\<lambda>p. p\<lparr>children := filter (\<lambda>b. block_id b \<noteq> blockId) (children p)\<rparr>)
                    (service w)\<rparr>)
      else (Inl (Error ''Could not find block''), w))"
| "serve (PatchBlockChildren pageId blocks) w =
     (if pageId \<in> set (map object_id (service w))
      then (Inr (no_response\<lparr>result_blocks := newBlocks (next_id w) blocks\<rparr>),
            w\<lparr>service :=
                map (\<lambda>p. if object_id p = pageId
                          then p\<lparr>children := children p @ newBlocks (next_id w) blocks,
                                 last_edited_time := Some (now w)\<rparr>
                          else p)
                    (service w),
              next_id := next_id w + length blocks\<rparr>)
      else (Inl (Error ''Could not find block''), w))"

subsection \<open>The Notion client\<close>

text \<open>
  \<^verbatim>\<open>NotionAPI.request\<close>. \<^verbatim>\<open>requestUrl\<close> is called with \<^verbatim>\<open>throw: false\<close>; on a status
  of 400 and above the method shows a notice and throws the message of the response
  inside its own \<^verbatim>\<open>try\<close>, so its \<^verbatim>\<open>catch\<close> shows a second notice and throws the
  message it makes from the first.
\<close>

definition requestErrorMessage :: "string \<Rightarrow> string" where
  "requestErrorMessage message =
     (if js_includes message ''CORS'' then ''CORS error - API access blocked by browser''
      else if js_includes message ''Network'' then ''Network error - check internet connection''
      else ''Notion API request failed: '' @ message)"

definition requestFailed :: "string \<Rightarrow> world \<Rightarrow> (error + response) \<times> world" where
  "requestFailed message w =
     (Inl (Error (requestErrorMessage message)),
      w\<lparr>api_notices := api_notices w @ [''Notion API request failed: '' @ message,
                                        requestErrorMessage message]\<rparr>)"

definition request :: "http_request \<Rightarrow> response io" where
  "request r w =
     (let w1 = w\<lparr>oplog := oplog w @ [Request r]\<rparr>;
          fails = (faults w1 \<noteq> [] \<and> hd (faults w1));
          w2 = w1\<lparr>faults := tl (faults w1)\<rparr>
      in if fails then requestFailed ''HTTP 500: Request failed'' w2
         else (case serve r w2 of
                 (Inl (Error message), w3) \<Rightarrow> requestFailed message w3
               | (Inr response, w3) \<Rightarrow> (Inr response, w3)))"

text \<open>\<^verbatim>\<open>blocksToMarkdown\<close>\<close>

definition blockText :: "block \<Rightarrow> string" where
  "blockText b = concat (rich_text b)"

definition blockMarkdown :: "block \<Rightarrow> string" where
  "blockMarkdown b =
     (case block_type b of
        Paragraph \<Rightarrow> blockText b @ [NL, NL]
      | Heading1 \<Rightarrow> ''# '' @ blockText b @ [NL, NL]
      | Heading2 \<Rightarrow> ''## '' @ blockText b @ [NL, NL]
      | Heading3 \<Rightarrow> ''### '' @ blockText b @ [NL, NL]
      | BulletedListItem \<Rightarrow> ''- '' @ blockText b @ [NL]
      | NumberedListItem \<Rightarrow> ''1. '' @ blockText b @ [NL]
      | OtherBlock ty \<Rightarrow> (if blockText b \<noteq> [] then blockText b @ [NL, NL] else []))"

definition blocksToMarkdown :: "block list \<Rightarrow> string" where
  "blocksToMarkdown blocks = js_trim (concat (map blockMarkdown blocks))"

text \<open>
  \<^verbatim>\<open>markdownToBlocks\<close>: the loop over the lines carries the blocks made so far and
  the paragraph being collected. \<open>numberedItem\<close> is the test of
  \<^verbatim>\<open>/^\d+\. /\<close> with what \<^verbatim>\<open>replace\<close> leaves.
\<close>

definition flushParagraph :: "new_block list \<Rightarrow> string \<Rightarrow> new_block list" where
  "flushParagraph blocks currentParagraph =
     (if currentParagraph \<noteq> [] then blocks @ [(Paragraph, currentParagraph)] else blocks)"

definition numberedItem :: "string \<Rightarrow> string option" where
  "numberedItem s =
     (let rest = dropWhile is_digit s
      in if takeWhile is_digit s \<noteq> [] \<and> startsWith rest ''. '' then Some (drop 2 rest) else None)"

definition markdownStep :: "new_block list \<times> string \<Rightarrow> string \<Rightarrow> new_block list \<times> string" where
  "markdownStep state line =
     (let blocks = fst state;
          currentParagraph = snd state;
          trimmedLine = js_trim line
      in if trimmedLine = [] then (flushParagraph blocks currentParagraph, [])
         else if startsWith trimmedLine ''# ''
           then (flushParagraph blocks currentParagraph @ [(Heading1, drop 2 trimmedLine)], [])
         else if startsWith trimmedLine ''## ''
           then (flushParagraph blocks currentParagraph @ [(Heading2, drop 3 trimmedLine)], [])
         else if startsWith trimmedLine ''### ''
           then (flushParagraph blocks currentParagraph @ [(Heading3, drop 4 trimmedLine)], [])
         else if startsWith trimmedLine ''- ''
           then (flushParagraph blocks currentParagraph
                   @ [(BulletedListItem, drop 2 trimmedLine)], [])
         else (case numberedItem trimmedLine of
                 Some item \<Rightarrow>
                   (flushParagraph blocks currentParagraph @ [(NumberedListItem, item)], [])
               | None \<Rightarrow>
                   (blocks,
                    currentParagraph @ (if currentParagraph \<noteq> [] then '' '' else [])
                      @ trimmedLine)))"

definition markdownToBlocks :: "string \<Rightarrow> new_block list" where
  "markdownToBlocks markdown =
     (case foldl markdownStep ([], []) (js_split NL markdown) of
        (blocks, currentParagraph) \<Rightarrow> flushParagraph blocks currentParagraph)"

text \<open>\<^verbatim>\<open>getPageContent\<close>\<close>

definition getPageContent :: "string \<Rightarrow> string io" where
  "getPageContent pageId =
     io_bind (request (GetBlockChildren pageId)) (\<lambda>response.
       io_return (blocksToMarkdown (result_blocks response)))"

text \<open>
  \<^verbatim>\<open>getDatabasePages\<close>. The \<^verbatim>\<open>for\<close> loop over the pages of one batch catches the
  failure of \<^verbatim>\<open>getPageContent\<close> and adds the page with empty content.
\<close>

definition fetchedPage :: "service_page \<Rightarrow> string \<Rightarrow> NotionPage" where
  "fetchedPage page content =
     \<lparr>page_id = object_id page, properties = object_properties page, page_content = content,
      page_lastModified = last_edited_time page\<rparr>"

fun collectPages :: "service_page list \<Rightarrow> NotionPage list \<Rightarrow> world \<Rightarrow> NotionPage list \<times> world" where
  "collectPages [] allPages w = (allPages, w)"
| "collectPages (page # pages) allPages w =
     (case getPageContent (object_id page) w of
        (Inr content, w1) \<Rightarrow> collectPages pages (allPages @ [fetchedPage page content]) w1
      | (Inl e, w1) \<Rightarrow> collectPages pages (allPages @ [fetchedPage page []]) w1)"

function getDatabasePagesLoop ::
    "string \<Rightarrow> nat option \<Rightarrow> NotionPage list \<Rightarrow> world \<Rightarrow> (error + NotionPage list) \<times> world" where
  "getDatabasePagesLoop databaseId startCursor allPages w =
     (case request (QueryDatabase databaseId startCursor) w of
        (Inl e, w1) \<Rightarrow> (Inl e, w1)
      | (Inr response, w1) \<Rightarrow>
          (case collectPages (result_pages response) allPages w1 of
             (allPages', w2) \<Rightarrow>
               if has_more response
               then getDatabasePagesLoop databaseId (next_cursor response) allPages' w2
               else (Inr allPages', w2)))"
  by pat_completeness auto

termination
proof (relation "measure (\<lambda>(databaseId, startCursor, allPages, w).
          length (filter (\<lambda>p. parent_database p = databaseId) (service w))
            - (case startCursor of None \<Rightarrow> 0 | Some c \<Rightarrow> c))", goal_cases)
  case 1
  show ?case by simp
next
  case (2 databaseId startCursor allPages w x w1 response allPages' w2)
  have query: "request (QueryDatabase databaseId startCursor) w = (Inr response, w1)"
    using 2 by simp
  have collect: "collectPages (result_pages response) allPages w1 = (allPages', w2)"
    using 2 by simp
  have reads: "service v' = service v" if "getPageContent pageId v = (r, v')" for pageId v r v'
    using that
    by (auto simp: getPageContent_def io_bind_def io_return_def request_def requestFailed_def
                   Let_def
             split: prod.splits sum.splits error.splits if_splits option.splits)
  have same: "service v' = service v" if "collectPages pages acc v = (acc', v')"
    for pages acc v acc' v'
    using that
  proof (induction pages arbitrary: acc v)
    case Nil
    then show ?case by simp
  next
    case (Cons p ps)
    obtain r v1 where 1: "getPageContent (object_id p) v = (r, v1)"
      by (cases "getPageContent (object_id p) v")
    from Cons.prems 1 show ?case
      by (cases r) (auto dest!: Cons.IH simp: reads [OF 1])
  qed
  have "service w1 = service w"
    using query
    by (auto simp: request_def requestFailed_def Let_def
             split: prod.splits sum.splits error.splits if_splits)
  with same [OF collect] have s: "service w2 = service w" by simp
  from query \<open>has_more response\<close> have
    "next_cursor response = Some ((case startCursor of None \<Rightarrow> 0 | Some c \<Rightarrow> c) + 100)
     \<and> (case startCursor of None \<Rightarrow> 0 | Some c \<Rightarrow> c) + 100
         < length (filter (\<lambda>p. parent_database p = databaseId) (service w))"
    by (auto simp: request_def requestFailed_def Let_def no_response_def
             split: prod.splits sum.splits error.splits if_splits)
  with s show ?case by (auto split: option.splits intro: diff_less_mono2)
qed

declare getDatabasePagesLoop.simps [simp del]

definition getDatabasePages :: "string \<Rightarrow> (NotionPage list) io" where
  "getDatabasePages databaseId = getDatabasePagesLoop databaseId None []"

text \<open>
  \<^verbatim>\<open>getPageInfo\<close>. Its request only reads, and the method catches whatever the
  request throws: the request is answered from the pages of the service and from
  \<open>lookup_fails\<close>, and it is not entered in the log, so that a lookup leaves the
  world as it is. The loop over the properties stops at the first title that is not
  empty.
\<close>

definition requestPage :: "world \<Rightarrow> string \<Rightarrow> error + (string \<times> notion_prop) list option" where
  "requestPage w pageId =
     (if lookup_fails w pageId
      then Inl (Error (requestErrorMessage ''HTTP 500: Request failed''))
      else (case List.find (\<lambda>p. object_id p = pageId) (service w) of
              None \<Rightarrow> Inl (Error (requestErrorMessage ''Could not find page''))
            | Some p \<Rightarrow> Inr (Some (object_properties p))))"

fun pageTitleLoop :: "string \<Rightarrow> (string \<times> notion_prop) list \<Rightarrow> string" where
  "pageTitleLoop title [] = title"
| "pageTitleLoop title ((propName, propValue) # rest) =
     (case propValue of
        Title titleArray \<Rightarrow>
          if length titleArray > 0 then concat titleArray else pageTitleLoop title rest
      | _ \<Rightarrow> pageTitleLoop title rest)"

definition pageTitle :: "(string \<times> notion_prop) list option \<Rightarrow> string" where
  "pageTitle responseProperties =
     (case responseProperties of
        None \<Rightarrow> ''Untitled''
      | Some props \<Rightarrow> pageTitleLoop ''Untitled'' props)"

definition getPageInfo :: "world \<Rightarrow> page_lookup" where
  "getPageInfo w pageId =
     (case requestPage w pageId of
        Inr responseProperties \<Rightarrow>
          Inr (Some \<lparr>info_id = pageId, info_title = pageTitle responseProperties\<rparr>)
      | Inl e \<Rightarrow> Inr None)"

text \<open>\<^verbatim>\<open>createPage\<close>\<close>

definition createPage :: "string \<Rightarrow> (string \<times> notion_payload) list \<Rightarrow> string \<Rightarrow> string io" where
  "createPage databaseId props content =
     io_bind (request (PostPage databaseId props (markdownToBlocks content))) (\<lambda>response.
       io_return (response_id response))"

text \<open>
  \<^verbatim>\<open>updatePage\<close>: the properties are patched; then, unless the content is the empty
  string, the existing blocks are listed and deleted one by one, and the new blocks,
  if there are any, are appended. Any of these requests can fail, and the method stops
  there.
\<close>

fun deleteBlocks :: "block list \<Rightarrow> unit io" where
  "deleteBlocks [] = io_return ()"
| "deleteBlocks (b # bs) =
     io_bind (request (DeleteBlock (block_id b))) (\<lambda>_. deleteBlocks bs)"

definition updatePage :: "string \<Rightarrow> (string \<times> notion_payload) list \<Rightarrow> string \<Rightarrow> unit io" where
  "updatePage pageId props content =
     io_bind (request (PatchPage pageId props)) (\<lambda>_.
       if content \<noteq> [] then
         io_bind (request (GetBlockChildren pageId)) (\<lambda>existingBlocks.
         io_bind (deleteBlocks (result_blocks existingBlocks)) (\<lambda>_.
           let newBlocks = markdownToBlocks content
           in if length newBlocks > 0
              then io_bind (request (PatchBlockChildren pageId newBlocks)) (\<lambda>_. io_return ())
              else io_return ()))
       else io_return ())"

text \<open>
  The pages of the service as \<^verbatim>\<open>getDatabasePages\<close> reports them, each with its
  database: the records that a sync works on.
\<close>

definition remote :: "world \<Rightarrow> (string \<times> NotionPage) list" where
  "remote w =
     map (\<lambda>p. (parent_database p, fetchedPage p (blocksToMarkdown (children p)))) (service w)"

subsection \<open>Local documents from Notion pages\<close>

text \<open>
  The path and the text of the document of a page. The same lines open
  \<^verbatim>\<open>syncNotionToObsidian\<close>'s loop body, \<^verbatim>\<open>createObsidianFromNotion\<close> and
  \<^verbatim>\<open>updateObsidianFromNotion\<close>. \<^verbatim>\<open>toISOString\<close> throws on an invalid date.
\<close>

definition documentPath :: "SyncConfig \<Rightarrow> NotionPage \<Rightarrow> string" where
  "documentPath config page =
     (let fileName = getFileNameFromPage page config
      in obsidianFolder config @ ''/'' @ fileName @ ''.md'')"

definition pageDocument :: "SyncConfig \<Rightarrow> NotionPage \<Rightarrow> (string \<times> string) io" where
  "pageDocument config page w =
     (let filePath = documentPath config page;
          fm = convertNotionPropertiesToFrontmatter (getPageInfo w) (properties page) config;
          fm1 = obj_set ''notionId'' (VStr (page_id page)) fm
      in case page_lastModified page of
           None \<Rightarrow> (Inl (Error ''Invalid time value''), w)
         | Some t \<Rightarrow>
             (Inr (filePath,
                   createMarkdownContent (obj_set ''lastNotionSync'' (VStr (isoString w t)) fm1)
                     (page_content page)), w))"

definition createObsidianFromNotion :: "NotionPage \<Rightarrow> SyncConfig \<Rightarrow> unit io" where
  "createObsidianFromNotion page config =
     io_bind (pageDocument config page) (\<lambda>(filePath, content). vault_create filePath content)"

definition updateObsidianFromNotion :: "NotionPage \<Rightarrow> SyncConfig \<Rightarrow> unit io" where
  "updateObsidianFromNotion page config =
     io_bind (pageDocument config page) (\<lambda>(filePath, content) w.
       case getAbstractFileByPath w filePath of
         Some file \<Rightarrow> vault_modify filePath content w
       | None \<Rightarrow> vault_create filePath content w)"

subsection \<open>Notion pages from local documents\<close>

text \<open>\<^verbatim>\<open>{ ...note.frontmatter, notionId: pageId, lastObsidianSync: ... }\<close>\<close>

definition linkedFrontmatter :: "world \<Rightarrow> frontmatter \<Rightarrow> string \<Rightarrow> frontmatter" where
  "linkedFrontmatter w fm pageId =
     obj_set ''lastObsidianSync'' (VStr (isoString w (now w))) (obj_set ''notionId'' (VStr pageId) fm)"

definition noteLinked :: "ObsidianNote \<Rightarrow> bool" where
  "noteLinked note = (case notionId note of None \<Rightarrow> False | Some v \<Rightarrow> truthy v)"

definition noteId :: "ObsidianNote \<Rightarrow> string" where
  "noteId note = (case notionId note of None \<Rightarrow> [] | Some v \<Rightarrow> js_String v)"

definition createNotionFromObsidian :: "ObsidianNote \<Rightarrow> SyncConfig \<Rightarrow> unit io" where
  "createNotionFromObsidian note config =
     io_bind (createPage (notionDatabaseId config)
                (convertFrontmatterToNotionProperties (note_frontmatter note) config)
                (note_content note))
       (\<lambda>pageId w.
          case getAbstractFileByPath w (note_path note) of
            Some file \<Rightarrow>
              vault_modify (note_path note)
                (createMarkdownContent (linkedFrontmatter w (note_frontmatter note) pageId)
                   (note_content note)) w
          | None \<Rightarrow> (Inr (), w))"

definition updateNotionFromObsidian :: "ObsidianNote \<Rightarrow> SyncConfig \<Rightarrow> unit io" where
  "updateNotionFromObsidian note config =
     (if \<not> noteLinked note then io_return ()
      else io_bind (updatePage (noteId note)
                      (convertFrontmatterToNotionProperties (note_frontmatter note) config)
                      (note_content note))
             (\<lambda>_ w.
                case getAbstractFileByPath w (note_path note) of
                  Some file \<Rightarrow>
                    vault_modify (note_path note)
                      (createMarkdownContent
                         (obj_set ''lastObsidianSync'' (VStr (isoString w (now w)))
                            (note_frontmatter note))
                         (note_content note)) w
                | None \<Rightarrow> (Inr (), w)))"

subsection \<open>Conflict resolution\<close>

text \<open>\<^verbatim>\<open>NotionSyncSettings\<close> of \<^verbatim>\<open>types.ts\<close>; the policy is a string at run time,
  and the \<^verbatim>\<open>switch\<close> of \<^verbatim>\<open>resolveConflict\<close> has a \<^verbatim>\<open>default\<close> branch.\<close>

record NotionSyncSettings =
  notionToken :: string
  syncConfigs :: "SyncConfig list"
  defaultSyncMode :: SyncMode
  syncInterval :: nat
  autoSync :: bool
  conflictResolution :: string

text \<open>
  \<^verbatim>\<open>notionModified > obsidianModified\<close>: the comparison is false when the date of the
  page is invalid (\<^verbatim>\<open>NaN\<close>).
\<close>

definition notionNewer :: "int option \<Rightarrow> int \<Rightarrow> bool" where
  "notionNewer notionModified obsidianModified =
     (case notionModified of None \<Rightarrow> False | Some t \<Rightarrow> t > obsidianModified)"

definition hasPropertyChanges :: "world \<Rightarrow> NotionPage \<Rightarrow> ObsidianNote \<Rightarrow> SyncConfig \<Rightarrow> bool" where
  "hasPropertyChanges w notionPage obsidianNote config =
     fst (hasSignificantChanges
            (convertNotionPropertiesToFrontmatter (getPageInfo w) (properties notionPage) config)
            (note_frontmatter obsidianNote) (fieldMappings config))"

definition hasContentChanges :: "NotionPage \<Rightarrow> ObsidianNote \<Rightarrow> bool" where
  "hasContentChanges notionPage obsidianNote =
     (normalizeContent (page_content notionPage) \<noteq> normalizeContent (note_content obsidianNote))"

text \<open>The note after \<^verbatim>\<open>hasSignificantChanges\<close> has sorted the arrays it looked at.\<close>

definition noteAfterCompare :: "world \<Rightarrow> NotionPage \<Rightarrow> ObsidianNote \<Rightarrow> SyncConfig \<Rightarrow> ObsidianNote" where
  "noteAfterCompare w notionPage obsidianNote config =
     obsidianNote\<lparr>note_frontmatter :=
       snd (hasSignificantChanges
              (convertNotionPropertiesToFrontmatter (getPageInfo w) (properties notionPage) config)
              (note_frontmatter obsidianNote) (fieldMappings config))\<rparr>"

definition resolveConflict ::
    "NotionSyncSettings \<Rightarrow> NotionPage \<Rightarrow> ObsidianNote \<Rightarrow> SyncConfig \<Rightarrow> string io" where
  "resolveConflict settings notionPage obsidianNote config w =
     (let notionModified = page_lastModified notionPage;
          obsidianModified = note_lastModified obsidianNote;
          note = noteAfterCompare w notionPage obsidianNote config
      in if \<not> hasPropertyChanges w notionPage obsidianNote config
            \<and> \<not> hasContentChanges notionPage obsidianNote
         then (Inr ''no-change'', w)
         else if conflictResolution settings = ''notion-wins''
           then io_bind (updateObsidianFromNotion notionPage config)
                  (\<lambda>_. io_return ''notion-wins'') w
         else if conflictResolution settings = ''obsidian-wins''
           then io_bind (updateNotionFromObsidian note config)
                  (\<lambda>_. io_return ''obsidian-wins'') w
         else if conflictResolution settings = ''newer-wins''
           then (if notionNewer notionModified obsidianModified
                 then io_bind (updateObsidianFromNotion notionPage config)
                        (\<lambda>_. io_return ''notion-wins'') w
                 else io_bind (updateNotionFromObsidian note config)
                        (\<lambda>_. io_return ''obsidian-wins'') w)
         else if conflictResolution settings = ''manual''
           then io_bind (io_notice (ManualConflict (note_path obsidianNote)))
                  (\<lambda>_. io_return ''conflict'') w
         else (Inr ''no-change'', w))"

subsection \<open>Pull: Notion to Obsidian\<close>

record pull_counts =
  createdCount :: nat
  updatedCount :: nat
  errorCount :: nat

text \<open>The \<^verbatim>\<open>try\<close> block of the loop: \<open>True\<close> when the file was there and was
  modified, \<open>False\<close> when it was created.\<close>

definition pullPage :: "SyncConfig \<Rightarrow> NotionPage \<Rightarrow> bool io" where
  "pullPage config page =
     io_bind (pageDocument config page) (\<lambda>(filePath, content) w.
       case getAbstractFileByPath w filePath of
         Some existingFile \<Rightarrow> io_bind (vault_modify filePath content) (\<lambda>_. io_return True) w
       | None \<Rightarrow> io_bind (vault_create filePath content) (\<lambda>_. io_return False) w)"

fun pullLoop :: "SyncConfig \<Rightarrow> pull_counts \<Rightarrow> NotionPage list \<Rightarrow> world \<Rightarrow> pull_counts \<times> world" where
  "pullLoop config counts [] w = (counts, w)"
| "pullLoop config counts (page # pages) w =
     (case pullPage config page w of
        (Inr True, w') \<Rightarrow>
          pullLoop config (counts\<lparr>updatedCount := updatedCount counts + 1\<rparr>) pages w'
      | (Inr False, w') \<Rightarrow>
          pullLoop config (counts\<lparr>createdCount := createdCount counts + 1\<rparr>) pages w'
      | (Inl e, w') \<Rightarrow>
          pullLoop config (counts\<lparr>errorCount := errorCount counts + 1\<rparr>) pages
            (w'\<lparr>notices := notices w' @ [PageFailed (page_id page)]\<rparr>))"

definition syncNotionToObsidian :: "SyncConfig \<Rightarrow> unit io" where
  "syncNotionToObsidian config =
     io_bind (getDatabasePages (notionDatabaseId config)) (\<lambda>notionPages.
       if length notionPages = 0 then io_notice (NoPagesFound (config_name config))
       else io_bind (ensureFolderExists (obsidianFolder config)) (\<lambda>_ w.
              case pullLoop config \<lparr>createdCount = 0, updatedCount = 0, errorCount = 0\<rparr>
                     notionPages w of
                (counts, w') \<Rightarrow>
                  io_notice (PullSummary (createdCount counts) (updatedCount counts)
                               (errorCount counts)) w'))"

subsection \<open>Push: Obsidian to Notion\<close>

definition pushFile :: "SyncConfig \<Rightarrow> TFile \<Rightarrow> unit io" where
  "pushFile config file =
     io_bind (vault_read (file_path file)) (\<lambda>content.
       let note = parseMarkdownFile file content;
           notionProperties = convertFrontmatterToNotionProperties (note_frontmatter note) config
       in if noteLinked note
          then updatePage (noteId note) notionProperties (note_content note)
          else io_bind (createPage (notionDatabaseId config) notionProperties (note_content note))
                 (\<lambda>pageId w.
                    vault_modify (file_path file)
                      (createMarkdownContent (linkedFrontmatter w (note_frontmatter note) pageId)
                         (note_content note)) w))"

fun pushLoop :: "SyncConfig \<Rightarrow> TFile list \<Rightarrow> world \<Rightarrow> world" where
  "pushLoop config [] w = w"
| "pushLoop config (file # files) w = pushLoop config files (snd (pushFile config file w))"

definition syncObsidianToNotion :: "SyncConfig \<Rightarrow> unit io" where
  "syncObsidianToNotion config w =
     (case getAbstractFileByPath w (obsidianFolder config) of
        None \<Rightarrow> (Inl (Error (''Folder '' @ obsidianFolder config @ '' not found'')), w)
      | Some folder \<Rightarrow>
          io_bind (getAllMarkdownFiles (obsidianFolder config) folder)
            (\<lambda>files w1. (Inr (), pushLoop config files w1)) w)"

subsection \<open>Merge: both directions\<close>

text \<open>
  \<^verbatim>\<open>Promise.all(files.map(async file => ...))\<close>: every read is started, in the
  order of the files, whether or not an earlier one fails; the result is the list of
  the notes when all reads succeed and the first failure otherwise.
\<close>

fun readNotes :: "TFile list \<Rightarrow> (ObsidianNote list) io" where
  "readNotes [] w = (Inr [], w)"
| "readNotes (f # fs) w =
     (case vault_read (file_path f) w of
        (r, w1) \<Rightarrow>
          (case readNotes fs w1 of
             (rs, w2) \<Rightarrow>
               ((case r of
                   Inl e \<Rightarrow> Inl e
                 | Inr content \<Rightarrow>
                     (case rs of
                        Inl e \<Rightarrow> Inl e
                      | Inr ns \<Rightarrow> Inr (parseMarkdownFile f content # ns))), w2)))"


text \<open>
  \<^verbatim>\<open>obsidianMap.get(page.id)\<close>: the map is built from the notes with a truthy
  \<^verbatim>\<open>notionId\<close>, a later note replacing an earlier one with the same key, and a key
  equals the string \<^verbatim>\<open>page.id\<close> only when it is that string.
\<close>

definition obsidianMap_get :: "ObsidianNote list \<Rightarrow> string \<Rightarrow> ObsidianNote option" where
  "obsidianMap_get obsidianNotes pageId =
     List.find (\<lambda>note. notionId note = Some (VStr pageId)) (rev (filter noteLinked obsidianNotes))"

text \<open>\<^verbatim>\<open>notionMap.has(note.notionId)\<close>\<close>

definition notionMap_has :: "NotionPage list \<Rightarrow> jsval option \<Rightarrow> bool" where
  "notionMap_has notionPages key =
     (case key of Some (VStr s) \<Rightarrow> s \<in> set (map page_id notionPages) | _ \<Rightarrow> False)"

record merge_counts =
  conflicts :: nat
  notionToObsidian :: nat
  obsidianToNotion :: nat
  created :: nat

definition countResult :: "string \<Rightarrow> merge_counts \<Rightarrow> merge_counts" where
  "countResult result counts =
     (if result = ''conflict'' then counts\<lparr>conflicts := conflicts counts + 1\<rparr>
      else if result = ''notion-wins'' then counts\<lparr>notionToObsidian := notionToObsidian counts + 1\<rparr>
      else if result = ''obsidian-wins'' then counts\<lparr>obsidianToNotion := obsidianToNotion counts + 1\<rparr>
      else counts)"

fun mergePages ::
    "NotionSyncSettings \<Rightarrow> SyncConfig \<Rightarrow> ObsidianNote list \<Rightarrow> merge_counts \<Rightarrow> NotionPage list
      \<Rightarrow> merge_counts io" where
  "mergePages settings config obsidianNotes counts [] = io_return counts"
| "mergePages settings config obsidianNotes counts (page # pages) =
     (case obsidianMap_get obsidianNotes (page_id page) of
        None \<Rightarrow>
          io_bind (createObsidianFromNotion page config) (\<lambda>_.
            mergePages settings config obsidianNotes (counts\<lparr>created := created counts + 1\<rparr>) pages)
      | Some correspondingNote \<Rightarrow>
          io_bind (resolveConflict settings page correspondingNote config) (\<lambda>result.
            mergePages settings config obsidianNotes (countResult result counts) pages))"

fun mergeNotes ::
    "SyncConfig \<Rightarrow> NotionPage list \<Rightarrow> merge_counts \<Rightarrow> ObsidianNote list \<Rightarrow> merge_counts io" where
  "mergeNotes config notionPages counts [] = io_return counts"
| "mergeNotes config notionPages counts (note # notes) =
     (if \<not> noteLinked note \<or> \<not> notionMap_has notionPages (notionId note)
      then io_bind (createNotionFromObsidian note config) (\<lambda>_.
             mergeNotes config notionPages (counts\<lparr>created := created counts + 1\<rparr>) notes)
      else mergeNotes config notionPages counts notes)"

definition syncBidirectional :: "NotionSyncSettings \<Rightarrow> SyncConfig \<Rightarrow> unit io" where
  "syncBidirectional settings config =
     io_bind (getDatabasePages (notionDatabaseId config)) (\<lambda>notionPages.
     io_bind (\<lambda>w. case getAbstractFileByPath w (obsidianFolder config) of
                    None \<Rightarrow> (Inr [], w)
                  | Some folder \<Rightarrow>
                      io_bind (getAllMarkdownFiles (obsidianFolder config) folder) readNotes w)
       (\<lambda>obsidianNotes.
     io_bind (mergePages settings config obsidianNotes
                \<lparr>conflicts = 0, notionToObsidian = 0, obsidianToNotion = 0, created = 0\<rparr>
                notionPages) (\<lambda>counts1.
     io_bind (mergeNotes config notionPages counts1 obsidianNotes) (\<lambda>counts.
       if conflicts counts > 0 then io_notice (ConflictsDetected (conflicts counts))
       else io_return ()))))"

subsection \<open>One configuration\<close>

text \<open>
  The body of the \<^verbatim>\<open>try\<close> block of \<^verbatim>\<open>syncConfig\<close>, up to the \<^verbatim>\<open>switch\<close>. The
  \<^verbatim>\<open>default\<close> branch of the switch is for a direction outside the enumeration.
\<close>

definition runDirection :: "NotionSyncSettings \<Rightarrow> SyncConfig \<Rightarrow> SyncDirection \<Rightarrow> unit io" where
  "runDirection settings config direction =
     (if notionDatabaseId config = [] then io_throw (Error ''No Notion database ID specified'')
      else if obsidianFolder config = [] then io_throw (Error ''No Obsidian folder specified'')
      else if length (fieldMappings config) = 0 \<and> direction = OBSIDIAN_TO_NOTION
        then io_throw (Error ''Cannot sync from Obsidian to Notion without field mappings. Please configure field mappings first.'')
      else (let actualDirection =
                  (if length (fieldMappings config) = 0 \<and> direction = BIDIRECTIONAL
                   then NOTION_TO_OBSIDIAN else direction)
            in case actualDirection of
                 NOTION_TO_OBSIDIAN \<Rightarrow> syncNotionToObsidian config
               | OBSIDIAN_TO_NOTION \<Rightarrow> syncObsidianToNotion config
               | BIDIRECTIONAL \<Rightarrow> syncBidirectional settings config))"

text \<open>The direction that \<^verbatim>\<open>syncConfig\<close> runs with:
  \<^verbatim>\<open>overrideDirection || config.syncDirection\<close>.\<close>

definition effectiveDirection :: "SyncDirection option \<Rightarrow> SyncConfig \<Rightarrow> SyncDirection" where
  "effectiveDirection overrideDirection config =
     (case overrideDirection of Some d \<Rightarrow> d | None \<Rightarrow> syncDirection config)"

text \<open>
  \<^verbatim>\<open>syncConfig\<close> mutates the configuration it is given; the model returns it with
  the outcome. Saving the settings afterwards is in a \<^verbatim>\<open>try\<close> block of its own
  whose failure is only logged; the plugin's storage is not part of the world.
\<close>

definition syncConfig ::
    "NotionSyncSettings \<Rightarrow> SyncConfig \<Rightarrow> SyncDirection option \<Rightarrow> world
      \<Rightarrow> (error + unit) \<times> SyncConfig \<times> world" where
  "syncConfig settings config overrideDirection w =
     (let direction = effectiveDirection overrideDirection config;
          w0 = w\<lparr>notices := notices w @ [Syncing (config_name config)]\<rparr>
      in case runDirection settings config direction w0 of
           (Inr u, w') \<Rightarrow>
             (Inr (), config\<lparr>lastSync := now w'\<rparr>,
              w'\<lparr>notices := notices w' @ [Synced (config_name config)]\<rparr>)
         | (Inl (Error message), w') \<Rightarrow>
             (Inl (Error (''Failed to sync '' @ config_name config @ '': '' @ message)),
              config, w'))"

section \<open>Example data\<close>

text \<open>A configuration without field mappings and one with two, a page, the note
  linked to it, and a world holding both.\<close>

definition ex_config_auto :: SyncConfig where
  "ex_config_auto =
     \<lparr>config_id = ''c1'', config_name = ''Notes'', obsidianFolder = ''notes'',
      notionDatabaseId = ''db1'', syncDirection = BIDIRECTIONAL, syncMode = MANUAL,
      fieldMappings = [], lastSync = 0, enabled = True\<rparr>"

definition ex_config_mapped :: SyncConfig where
  "ex_config_mapped =
     \<lparr>config_id = ''c2'', config_name = ''Notes'', obsidianFolder = ''notes'',
      notionDatabaseId = ''db1'', syncDirection = BIDIRECTIONAL, syncMode = MANUAL,
      fieldMappings =
        [\<lparr>notionProperty = ''Title'', obsidianProperty = ''title'', mapping_type = ''text''\<rparr>,
         \<lparr>notionProperty = ''Tags'', obsidianProperty = ''tags'', mapping_type = ''list''\<rparr>],
      lastSync = 0, enabled = True\<rparr>"

definition ex_page :: NotionPage where
  "ex_page =
     \<lparr>page_id = ''abc12345xyz'',
      properties = [(''Title'', Title [''Hello'']), (''Tags'', MultiSelect [''b'', ''a'']),
                    (''Done'', Checkbox True)],
      page_content = ''remote text'', page_lastModified = Some 1000\<rparr>"

definition ex_note :: ObsidianNote where
  "ex_note =
     \<lparr>note_path = ''notes/Hello.md'',
      note_frontmatter = [(''title'', VStr ''Hello''), (''tags'', VList [''a'', ''b'']),
                          (''notionId'', VStr ''abc12345xyz'')],
      note_content = ''local text'', note_lastModified = 1000,
      notionId = Some (VStr ''abc12345xyz'')\<rparr>"

text \<open>The page of the service that \<^verbatim>\<open>getDatabasePages\<close> reports as the given
  page: its content is one paragraph.\<close>

definition ex_stored :: "string \<Rightarrow> string \<Rightarrow> NotionPage \<Rightarrow> service_page" where
  "ex_stored databaseId blockId page =
     \<lparr>parent_database = databaseId, object_id = page_id page,
      object_properties = properties page,
      children = [\<lparr>block_id = blockId, block_type = Paragraph,
                    rich_text = [page_content page]\<rparr>],
      last_edited_time = page_lastModified page\<rparr>"

definition ex_world :: world where
  "ex_world =
     \<lparr>vault = [(''notes'', Folder),
               (''notes/Hello.md'',
                File (createMarkdownContent (note_frontmatter ex_note) (note_content ex_note))
                  1000)],
      service = [ex_stored ''db1'' ''b1'' ex_page],
      next_id = 1,
      faults = [],
      lookup_fails = (\<lambda>i. False),
      now = 2000,
      isoString = (\<lambda>t. ''1970-01-01T00:00:0'' @ show_int (t div 1000) @ ''.000Z''),
      notices = [],
      api_notices = [],
      oplog = []\<rparr>"




definition ex_settings :: "string \<Rightarrow> NotionSyncSettings" where
  "ex_settings policy =
     \<lparr>notionToken = ''secret_token'', syncConfigs = [], defaultSyncMode = MANUAL,
      syncInterval = 30, autoSync = False, conflictResolution = policy\<rparr>"


section \<open>Notions used in the statements\<close>

text \<open>A local document exists when its path resolves to a file of the vault; a remote
  record exists when the service holds a record with its identifier in its database.\<close>

definition fileExists :: "world \<Rightarrow> string \<Rightarrow> bool" where
  "fileExists w path =
     (case getAbstractFileByPath w path of Some (File content t) \<Rightarrow> True | _ \<Rightarrow> False)"

definition recordExists :: "world \<Rightarrow> string \<Rightarrow> string \<Rightarrow> bool" where
  "recordExists w databaseId pageId =
     ((databaseId, pageId) \<in> set (map (\<lambda>(db, page). (db, page_id page)) (remote w)))"

text \<open>Nothing is deleted between two worlds.\<close>

definition grows :: "world \<Rightarrow> world \<Rightarrow> bool" where
  "grows w w' =
     ((\<forall>path. fileExists w path \<longrightarrow> fileExists w' path)
      \<and> (\<forall>db pid. recordExists w db pid \<longrightarrow> recordExists w' db pid))"






section \<open>Verified properties\<close>

subsection \<open>Helper facts on objects\<close>

lemma map_fst_alist_set:
  "map fst (alist_set k v kvs) = (if k \<in> fst ` set kvs then map fst kvs else map fst kvs @ [k])"
  by (induction kvs) force+

lemma keys_alist_set: "fst ` set (alist_set k v kvs) = insert k (fst ` set kvs)"
  using arg_cong [OF map_fst_alist_set, of set k v kvs] by (auto simp: image_iff)


lemma keys_obj_set:
  "fst ` set (obj_set k v kvs)
     = (if k = ''__proto__'' then fst ` set kvs else insert k (fst ` set kvs))"
  by (simp add: obj_set_def keys_alist_set)

subsection \<open>Relation display text\<close>





subsection \<open>File names\<close>






subsection \<open>Conversion without field mappings\<close>

lemma keys_autoConvertStep:
  "fst ` set (autoConvertStep g fm entry)
     = (if frontmatterKey (fst entry) = ''__proto__'' then fst ` set fm
        else insert (frontmatterKey (fst entry)) (fst ` set fm))"
  by (simp add: autoConvertStep_def keys_obj_set split: option.splits switch_result.splits)

lemma keys_autoConvertLoop:
  "fst ` set (autoConvertLoop g fm entries)
     = fst ` set fm \<union> (frontmatterKey ` fst ` set entries - {''__proto__''})"
  by (induction entries arbitrary: fm) (auto simp: keys_autoConvertStep)

text \<open>
  The keys of the front matter that the conversion without field mappings builds:
  the lower-cased names of the properties, white space replaced by underscores, but
  for \<^verbatim>\<open>__proto__\<close>; and the front matter of the two properties \<^verbatim>\<open>Name\<close> and
  \<^verbatim>\<open>Done\<close>.
\<close>

lemma auto_conversion_keys:
  "fieldMappings config = [] \<Longrightarrow>
   fst ` set (convertNotionPropertiesToFrontmatter g props config)
     = frontmatterKey ` fst ` set props - {''__proto__''}"
  by (simp add: convertNotionPropertiesToFrontmatter_def keys_autoConvertLoop)

text \<open>
  Claim C5. Without field mappings, \<^verbatim>\<open>convertNotionPropertiesToFrontmatter\<close> is
  meant to give the front matter a key for every property of the page (``Always
  include the property, even if empty''), and it does so for the properties \<^verbatim>\<open>Name\<close>
  and \<^verbatim>\<open>Done\<close> of the claim and for a property whose value is empty. A property
  whose name turns into the key \<^verbatim>\<open>__proto__\<close> is lost: the assignment
  \<^verbatim>\<open>frontmatter[frontmatterKey] = value\<close> makes no property under that key.
\<close>

theorem auto_conversion_loses_proto_property:
  "fieldMappings ex_config_auto = []
   \<and> convertNotionPropertiesToFrontmatter (getPageInfo ex_world)
        [(''Name'', Title [''Hello'']), (''Done'', Checkbox True)] ex_config_auto
      = [(''name'', VStr ''Hello''), (''done'', VBool True)]
   \<and> convertNotionPropertiesToFrontmatter (getPageInfo ex_world)
        [(''Name'', Title [''Hello'']), (''Due'', Date None)] ex_config_auto
      = [(''name'', VStr ''Hello''), (''due'', VStr [])]
   \<and> frontmatterKey ''__PROTO__'' = ''__proto__''
   \<and> convertNotionPropertiesToFrontmatter (getPageInfo ex_world)
        [(''Name'', Title [''Hello'']), (''__PROTO__'', Checkbox True)] ex_config_auto
      = [(''name'', VStr ''Hello'')]
   \<and> frontmatterKey ''__PROTO__''
       \<notin> fst ` set (convertNotionPropertiesToFrontmatter (getPageInfo ex_world)
                        [(''Name'', Title [''Hello'']), (''__PROTO__'', Checkbox True)]
                        ex_config_auto)"
  by code_simp

subsection \<open>Conflict resolution\<close>

text \<open>
  Claim C9. When a page and its note differ (in a mapped property or in the content)
  and the configured policy is none of \<^verbatim>\<open>notion-wins\<close>, \<^verbatim>\<open>obsidian-wins\<close>,
  \<^verbatim>\<open>newer-wins\<close> and \<^verbatim>\<open>manual\<close>, \<^verbatim>\<open>resolveConflict\<close> returns \<^verbatim>\<open>no-change\<close>
  and leaves the world as it was: no file and no record is written, and no call to
  the vault or to Notion is made.
\<close>

theorem unknown_policy_no_change:
  "hasPropertyChanges w notionPage obsidianNote config \<or> hasContentChanges notionPage obsidianNote \<Longrightarrow>
   conflictResolution settings \<notin> {''notion-wins'', ''obsidian-wins'', ''newer-wins'', ''manual''} \<Longrightarrow>
   resolveConflict settings notionPage obsidianNote config w = (Inr ''no-change'', w)"
  by (auto simp: resolveConflict_def Let_def)

theorem unknown_policy_no_change_witness:
  "hasContentChanges ex_page ex_note
   \<and> conflictResolution (ex_settings ''ask-me'')
        \<notin> {''notion-wins'', ''obsidian-wins'', ''newer-wins'', ''manual''}
   \<and> resolveConflict (ex_settings ''ask-me'') ex_page ex_note ex_config_mapped ex_world
        = (Inr ''no-change'', ex_world)"
proof -
  have h1: "hasContentChanges ex_page ex_note"
    by code_simp
  have h2: "conflictResolution (ex_settings ''ask-me'')
              \<notin> {''notion-wins'', ''obsidian-wins'', ''newer-wins'', ''manual''}"
    by (simp add: ex_settings_def)
  from unknown_policy_no_change
         [where w = ex_world and config = ex_config_mapped, OF disjI2 [OF h1] h2] h1 h2
  show ?thesis by simp
qed

text \<open>
  Claim C1 says that under \<^verbatim>\<open>newer-wins\<close> a tie of the two modification times is
  resolved for Notion. The comparison in \<^verbatim>\<open>resolveConflict\<close> is
  \<^verbatim>\<open>notionModified > obsidianModified\<close>, so on a tie the other branch runs: the page
  and the note of the example have the same time and different contents, and the
  result is \<^verbatim>\<open>obsidian-wins\<close>, with the content of the note written to the record.
\<close>

theorem newer_wins_tie_counterexample:
  "hasContentChanges ex_page ex_note
   \<and> conflictResolution (ex_settings ''newer-wins'') = ''newer-wins''
   \<and> page_lastModified ex_page = Some (note_lastModified ex_note)
   \<and> fst (resolveConflict (ex_settings ''newer-wins'') ex_page ex_note ex_config_mapped ex_world)
       \<noteq> Inr ''notion-wins''
   \<and> fst (resolveConflict (ex_settings ''newer-wins'') ex_page ex_note ex_config_mapped ex_world)
       = Inr ''obsidian-wins''
   \<and> map (\<lambda>r. page_content (snd r))
        (remote (snd (resolveConflict (ex_settings ''newer-wins'') ex_page ex_note
                        ex_config_mapped ex_world)))
       = [''local text'']"
  by code_simp

text \<open>
  Claim C1, amended. When a page and its note differ, the policy is \<^verbatim>\<open>newer-wins\<close>
  and the two modification times are equal, \<^verbatim>\<open>resolveConflict\<close> treats the tie as
  a win of the local side: it runs \<^verbatim>\<open>updateNotionFromObsidian\<close> on the note, and
  returns \<^verbatim>\<open>obsidian-wins\<close> when that update does not throw. It never returns
  \<^verbatim>\<open>notion-wins\<close>.
\<close>

theorem newer_wins_tie_is_local_wins:
  "hasPropertyChanges w notionPage obsidianNote config \<or> hasContentChanges notionPage obsidianNote \<Longrightarrow>
   conflictResolution settings = ''newer-wins'' \<Longrightarrow>
   page_lastModified notionPage = Some (note_lastModified obsidianNote) \<Longrightarrow>
   resolveConflict settings notionPage obsidianNote config w
     = io_bind (updateNotionFromObsidian (noteAfterCompare w notionPage obsidianNote config) config)
         (\<lambda>_. io_return ''obsidian-wins'') w
   \<and> fst (resolveConflict settings notionPage obsidianNote config w) \<noteq> Inr ''notion-wins''"
  by (auto simp: resolveConflict_def Let_def notionNewer_def io_bind_def io_return_def
           split: prod.splits sum.splits)

theorem newer_wins_tie_is_local_wins_witness:
  "hasContentChanges ex_page ex_note
   \<and> conflictResolution (ex_settings ''newer-wins'') = ''newer-wins''
   \<and> page_lastModified ex_page = Some (note_lastModified ex_note)
   \<and> resolveConflict (ex_settings ''newer-wins'') ex_page ex_note ex_config_auto ex_world
       = io_bind (updateNotionFromObsidian
                    (noteAfterCompare ex_world ex_page ex_note ex_config_auto) ex_config_auto)
           (\<lambda>_. io_return ''obsidian-wins'') ex_world"
proof -
  have h1: "hasContentChanges ex_page ex_note"
    by code_simp
  have h2: "conflictResolution (ex_settings ''newer-wins'') = ''newer-wins''"
    by (simp add: ex_settings_def)
  have h3: "page_lastModified ex_page = Some (note_lastModified ex_note)"
    by (simp add: ex_page_def ex_note_def)
  from newer_wins_tie_is_local_wins
         [where w = ex_world and config = ex_config_auto, OF disjI2 [OF h1] h2 h3] h1 h2 h3
  show ?thesis by simp
qed

subsection \<open>Direction policy of \<^verbatim>\<open>syncConfig\<close>\<close>



subsection \<open>The time of the last sync\<close>

lemma runDirection_invalid:
  "notionDatabaseId config = [] \<or> obsidianFolder config = []
     \<or> (fieldMappings config = [] \<and> d = OBSIDIAN_TO_NOTION) \<Longrightarrow>
   isl (fst (runDirection settings config d w))"
  by (auto simp: runDirection_def io_throw_def)

lemma syncConfig_cases:
  "syncConfig settings config overrideDirection w = (r, config', w') \<Longrightarrow>
   (case runDirection settings config (effectiveDirection overrideDirection config)
           (w\<lparr>notices := notices w @ [Syncing (config_name config)]\<rparr>) of
      (Inr u, w1) \<Rightarrow> r = Inr () \<and> config' = config\<lparr>lastSync := now w1\<rparr>
                      \<and> w' = w1\<lparr>notices := notices w1 @ [Synced (config_name config)]\<rparr>
    | (Inl e, w1) \<Rightarrow> isl r \<and> config' = config \<and> w' = w1)"
  by (auto simp: syncConfig_def Let_def split: prod.splits sum.splits error.splits)

text \<open>
  Claim C10. \<^verbatim>\<open>syncConfig\<close> sets \<^verbatim>\<open>lastSync\<close> to the clock only when the run of
  the direction has returned; when it throws, the configuration is unchanged. It
  throws when the database identifier is missing, when the folder is missing, when the
  direction is Obsidian to Notion without field mappings, and when the sync of the
  direction throws.
\<close>

theorem lastSync_only_after_success:
  "syncConfig settings config overrideDirection w = (r, config', w') \<Longrightarrow>
     (isl r \<longrightarrow> config' = config \<and> lastSync config' = lastSync config)
     \<and> (\<not> isl r \<longrightarrow>
          lastSync config' = now w'
          \<and> fst (runDirection settings config (effectiveDirection overrideDirection config)
                   (w\<lparr>notices := notices w @ [Syncing (config_name config)]\<rparr>)) = Inr ())
     \<and> (notionDatabaseId config = [] \<longrightarrow> isl r)
     \<and> (obsidianFolder config = [] \<longrightarrow> isl r)
     \<and> (fieldMappings config = [] \<and> effectiveDirection overrideDirection config = OBSIDIAN_TO_NOTION
          \<longrightarrow> isl r)
     \<and> (isl (fst (runDirection settings config (effectiveDirection overrideDirection config)
                    (w\<lparr>notices := notices w @ [Syncing (config_name config)]\<rparr>))) \<longrightarrow> isl r)"
proof -
  assume a: "syncConfig settings config overrideDirection w = (r, config', w')"
  let ?d = "effectiveDirection overrideDirection config"
  let ?w0 = "w\<lparr>notices := notices w @ [Syncing (config_name config)]\<rparr>"
  obtain r1 w1 where run: "runDirection settings config ?d ?w0 = (r1, w1)"
    by (cases "runDirection settings config ?d ?w0")
  show ?thesis
  proof (cases r1)
    case (Inl e)
    with syncConfig_cases [OF a] run have "isl r \<and> config' = config" by simp
    with run Inl show ?thesis by simp
  next
    case (Inr u)
    with syncConfig_cases [OF a] run
    have r: "r = Inr () \<and> config' = config\<lparr>lastSync := now w1\<rparr>
        \<and> w' = w1\<lparr>notices := notices w1 @ [Synced (config_name config)]\<rparr>" by simp
    have ok: "\<not> isl (fst (runDirection settings config ?d ?w0))" using run Inr by simp
    with runDirection_invalid [of config ?d settings ?w0]
    have "notionDatabaseId config \<noteq> [] \<and> obsidianFolder config \<noteq> []
          \<and> \<not> (fieldMappings config = [] \<and> ?d = OBSIDIAN_TO_NOTION)" by blast
    with r run Inr show ?thesis by auto
  qed
qed

theorem lastSync_only_after_success_witness:
  "isl (fst (syncConfig (ex_settings ''newer-wins'') ex_config_auto (Some OBSIDIAN_TO_NOTION) ex_world))
   \<and> lastSync (fst (snd (syncConfig (ex_settings ''newer-wins'') ex_config_auto
                            (Some OBSIDIAN_TO_NOTION) ex_world)))
       = lastSync ex_config_auto
   \<and> \<not> isl (fst (syncConfig (ex_settings ''newer-wins'') ex_config_auto None ex_world))
   \<and> lastSync (fst (snd (syncConfig (ex_settings ''newer-wins'') ex_config_auto None ex_world)))
       = now (snd (snd (syncConfig (ex_settings ''newer-wins'') ex_config_auto None ex_world)))"
proof -
  let ?a = "syncConfig (ex_settings ''newer-wins'') ex_config_auto (Some OBSIDIAN_TO_NOTION) ex_world"
  let ?b = "syncConfig (ex_settings ''newer-wins'') ex_config_auto None ex_world"
  have a: "?a = (fst ?a, fst (snd ?a), snd (snd ?a))" by simp
  have b: "?b = (fst ?b, fst (snd ?b), snd (snd ?b))" by simp
  have ia: "isl (fst ?a)" by code_simp
  have ib: "\<not> isl (fst ?b)" by code_simp
  from lastSync_only_after_success [OF a] ia lastSync_only_after_success [OF b] ib
  show ?thesis by simp
qed

subsection \<open>Pull: failures of single records\<close>









subsection \<open>No deletions\<close>

lemma record_keys:
  "map (\<lambda>(db, page). (db, page_id page)) (remote w)
     = map (\<lambda>p. (parent_database p, object_id p)) (service w)"
  by (simp add: remote_def fetchedPage_def comp_def)



lemma grows_same_stores: "vault w' = vault w \<Longrightarrow> service w' = service w \<Longrightarrow> grows w w'"
  by (simp add: grows_def fileExists_def recordExists_def record_keys getAbstractFileByPath_def)


















lemma grows_bookkeeping:
  "grows w (w\<lparr>oplog := ops, faults := fs\<rparr>) \<and> grows w (w\<lparr>api_notices := ns\<rparr>)"
  by (simp add: grows_same_stores)































subsection \<open>Document codec: strings\<close>











subsection \<open>Document codec: numbers\<close>





























subsection \<open>Document codec: values and lines\<close>




















end
